theory Spec2Isabelle
  imports Main
begin

section \<open>The structured logger (package logger)\<close>

text \<open>
  The package wraps Go's \<^verbatim>\<open>log/slog\<close>.  A log call has no result: what it does is
  call other functions (the stack walker, the clock, the trace function, an event
  hook) and write one line.  The model returns these effects as a list of events, in
  the order in which the code performs them.  Function values supplied by the caller
  (\<^verbatim>\<open>EventFn\<close>) are opaque: a value of type \<open>'f\<close> names the function, and calling it
  is an event.  A \<^verbatim>\<open>context.Context\<close> is a value of type \<open>'c\<close>.
\<close>

subsection \<open>Levels and records (model.go)\<close>

text \<open>\<^verbatim>\<open>type Level slog.Level\<close>, an integer; the four constants are slog's.\<close>

type_synonym Level = int

definition LevelDebug :: Level where "LevelDebug = - 4"
definition LevelInfo :: Level where "LevelInfo = 0"
definition LevelWarn :: Level where "LevelWarn = 4"
definition LevelError :: Level where "LevelError = 8"

text \<open>
  A \<^verbatim>\<open>time.Time\<close> is an instant counted from the zero time, so that \<^verbatim>\<open>IsZero\<close> is
  \<open>t = 0\<close>.  A \<^verbatim>\<open>uintptr\<close> program counter is a natural number.
\<close>

type_synonym Time = int
type_synonym uintptr = nat

text \<open>\<^verbatim>\<open>slog.Source\<close>: the source position of a program counter.\<close>

record Source =
  Function :: string
  File :: string
  Line :: int

text \<open>
  Go's \<^verbatim>\<open>any\<close>, as far as the logger meets it: the arguments of a log call and the
  values of attributes.  \<open>AnyAttr k v\<close> is a \<^verbatim>\<open>slog.Attr\<close> passed as an argument,
  \<open>AnySource\<close> a \<^verbatim>\<open>*slog.Source\<close>, \<open>AnyOther\<close> a value of any other type.  An
  \<^verbatim>\<open>slog.Value\<close> holds the same data, so \<^verbatim>\<open>slog.Any\<close> and \<^verbatim>\<open>Value.Any\<close> are the
  identity here.  Group values and \<^verbatim>\<open>LogValuer\<close>s are outside the model.
\<close>

datatype any =
    AnyNil
  | AnyString string
  | AnyInt int
  | AnyBool bool
  | AnyTime Time
  | AnyLevel Level
  | AnySource Source
  | AnyAttr string any
  | AnyOther nat

type_synonym Attr = "string \<times> any"

text \<open>\<^verbatim>\<open>slog.Record\<close>: the record the handlers are given.\<close>

record slog_Record =
  rTime :: Time
  rMessage :: string
  rLevel :: Level
  rPC :: uintptr
  rAttrs :: "Attr list"

text \<open>\<^verbatim>\<open>Record\<close> of model.go: what an event hook is given.\<close>

record Record =
  Time :: Time
  Message :: string
  Level :: Level
  Attributes :: "string \<rightharpoonup> any"

text \<open>
  \<^verbatim>\<open>toRecord\<close>: the callback passed to \<^verbatim>\<open>r.Attrs\<close> stores every attribute under its
  key, in order, so a later attribute replaces an earlier one with the same key.
\<close>

definition toRecord :: "slog_Record \<Rightarrow> Record" where
  "toRecord r =
     \<lparr> Time = rTime r,
       Message = rMessage r,
       Level = rLevel r,
       Attributes = foldl (\<lambda>attrs attr. attrs(fst attr \<mapsto> snd attr)) Map.empty (rAttrs r) \<rparr>"

text \<open>\<^verbatim>\<open>Events\<close>: one optional callback per level; \<open>None\<close> is Go's nil.\<close>

record 'f Events =
  Debug :: "'f option"
  Info :: "'f option"
  Warn :: "'f option"
  Error :: "'f option"

subsection \<open>The sink: slog's JSON handler\<close>

text \<open>
  \<^verbatim>\<open>log/slog\<close> is Go's standard library, not part of the repository.  The logger
  uses its JSON handler as the sink, so the part of its documented behaviour that the
  logger relies on is written out here.  A written line is kept as the list of its
  members in the order of writing, each with the names of the groups around it and
  its key; the byte encoding of the values is not modelled.
\<close>

text \<open>An \<^verbatim>\<open>io.Writer\<close>: \<^verbatim>\<open>io.Discard\<close>, or any other writer, named by a number.\<close>

datatype Writer = Discard | Writer nat

text \<open>
  \<^verbatim>\<open>slog.HandlerOptions\<close>; its field \<^verbatim>\<open>Level\<close> is \<open>MinLevel\<close> here, \<open>None\<close> when
  it is nil.
\<close>

record HandlerOptions =
  AddSource :: bool
  MinLevel :: "Level option"
  ReplaceAttr :: "(string list \<Rightarrow> Attr \<Rightarrow> Attr) option"

type_synonym Member = "string list \<times> any"

record JSONHandler =
  jsonWriter :: Writer
  jsonOpts :: HandlerOptions
  jsonAttrs :: "Member list"
  jsonGroups :: "string list"

definition TimeKey :: string where "TimeKey = ''time''"
definition LevelKey :: string where "LevelKey = ''level''"
definition MessageKey :: string where "MessageKey = ''msg''"
definition SourceKey :: string where "SourceKey = ''source''"
definition badKey :: string where "badKey = ''!BADKEY''"

definition NewJSONHandler :: "Writer \<Rightarrow> HandlerOptions \<Rightarrow> JSONHandler" where
  "NewJSONHandler wr options =
     \<lparr> jsonWriter = wr, jsonOpts = options, jsonAttrs = [], jsonGroups = [] \<rparr>"

text \<open>The handler's level filter; without a configured level the minimum is Info.\<close>

definition JSON_Enabled :: "JSONHandler \<Rightarrow> Level \<Rightarrow> bool" where
  "JSON_Enabled h l =
     (case MinLevel (jsonOpts h) of None \<Rightarrow> LevelInfo \<le> l | Some m \<Rightarrow> m \<le> l)"

text \<open>
  Writing one attribute: \<^verbatim>\<open>ReplaceAttr\<close>, when configured, rewrites it first (it is
  given the open groups), and an attribute with an empty key and a nil value is left
  out.
\<close>

definition isEmptyAttr :: "Attr \<Rightarrow> bool" where
  "isEmptyAttr a = (fst a = [] \<and> snd a = AnyNil)"

definition appendAttr :: "HandlerOptions \<Rightarrow> string list \<Rightarrow> Attr \<Rightarrow> Member list" where
  "appendAttr options gs a =
     (let a' = (case ReplaceAttr options of None \<Rightarrow> a | Some rep \<Rightarrow> rep gs a)
      in if isEmptyAttr a' then [] else [(gs @ [fst a'], snd a')])"

definition appendAttrs :: "HandlerOptions \<Rightarrow> string list \<Rightarrow> Attr list \<Rightarrow> Member list" where
  "appendAttrs options gs as = concat (map (appendAttr options gs) as)"

text \<open>
  \<^verbatim>\<open>WithAttrs\<close> formats the attributes once, inside the groups open at that time,
  and returns the receiver's state when it is given no attribute.  \<^verbatim>\<open>WithGroup\<close>
  opens a group for everything added later; the JSON handler does so for every name,
  the empty one too.
\<close>

definition JSON_WithAttrs :: "JSONHandler \<Rightarrow> Attr list \<Rightarrow> JSONHandler" where
  "JSON_WithAttrs h as =
     (if as = [] then h
      else h\<lparr> jsonAttrs := jsonAttrs h @ appendAttrs (jsonOpts h) (jsonGroups h) as \<rparr>)"

definition JSON_WithGroup :: "JSONHandler \<Rightarrow> string \<Rightarrow> JSONHandler" where
  "JSON_WithGroup h name = h\<lparr> jsonGroups := jsonGroups h @ [name] \<rparr>"

text \<open>
  The environment of a log call: the clock, the stack (\<^verbatim>\<open>runtime.Callers\<close> with a
  skip count stores one program counter, 0 when the stack is shallower) and the
  resolution of a program counter to its source position.
\<close>

record env =
  time_Now :: Time
  runtime_Callers :: "int \<Rightarrow> uintptr"
  runtime_Frame :: "uintptr \<Rightarrow> Source"

text \<open>What a log call does, in order.\<close>

datatype ('c, 'f) event =
    CallCallers int
  | CallNow
  | CallTraceIDFn 'c
  | CallEventFn 'f 'c Record
  | WriteLine Writer "Member list"

text \<open>
  \<^verbatim>\<open>Handle\<close> of the JSON handler writes one line: the built-in members outside any
  group (the time unless it is zero, the level, the source position when
  \<^verbatim>\<open>AddSource\<close> is set, the message), then the attributes of \<^verbatim>\<open>WithAttrs\<close>, then
  the record's own attributes.
\<close>

definition builtIns :: "env \<Rightarrow> HandlerOptions \<Rightarrow> slog_Record \<Rightarrow> Member list" where
  "builtIns e options r =
     (if rTime r = 0 then [] else appendAttr options [] (TimeKey, AnyTime (rTime r)))
     @ appendAttr options [] (LevelKey, AnyLevel (rLevel r))
     @ (if AddSource options
        then appendAttr options [] (SourceKey, AnySource (runtime_Frame e (rPC r)))
        else [])
     @ appendAttr options [] (MessageKey, AnyString (rMessage r))"

definition JSON_Handle :: "env \<Rightarrow> JSONHandler \<Rightarrow> slog_Record \<Rightarrow> ('c, 'f) event list" where
  "JSON_Handle e h r =
     [WriteLine (jsonWriter h)
        (builtIns e (jsonOpts h) r
         @ jsonAttrs h
         @ appendAttrs (jsonOpts h) (jsonGroups h) (rAttrs r))]"

text \<open>
  \<^verbatim>\<open>slog.NewRecord\<close> and \<^verbatim>\<open>Record.Add\<close>.  \<^verbatim>\<open>Add\<close> reads the arguments from the
  left: a string is a key and takes the next argument as its value, a string in the
  last place becomes the value of the key \<^verbatim>\<open>!BADKEY\<close>, an \<^verbatim>\<open>Attr\<close> stands for
  itself, and any other value becomes the value of \<^verbatim>\<open>!BADKEY\<close>.
\<close>

definition NewRecord :: "Time \<Rightarrow> Level \<Rightarrow> string \<Rightarrow> uintptr \<Rightarrow> slog_Record" where
  "NewRecord t level msg pc =
     \<lparr> rTime = t, rMessage = msg, rLevel = level, rPC = pc, rAttrs = [] \<rparr>"

fun argsToAttrs :: "any list \<Rightarrow> Attr list" where
  "argsToAttrs [] = []"
| "argsToAttrs [AnyString x] = [(badKey, AnyString x)]"
| "argsToAttrs (AnyString x # v # args) = (x, v) # argsToAttrs args"
| "argsToAttrs (AnyAttr k v # args) = (k, v) # argsToAttrs args"
| "argsToAttrs (x # args) = (badKey, x) # argsToAttrs args"

definition Add :: "slog_Record \<Rightarrow> any list \<Rightarrow> slog_Record" where
  "Add r args = r\<lparr> rAttrs := rAttrs r @ argsToAttrs args \<rparr>"

subsection \<open>The hook handler (logHandler)\<close>

text \<open>
  An \<^verbatim>\<open>slog.Handler\<close> is the JSON handler or a \<^verbatim>\<open>logHandler\<close> around another
  handler; the four methods of the interface dispatch on which one it is.
\<close>

datatype 'f Handler =
    JSON JSONHandler
  | logHandler "'f Handler" "'f Events"

definition newLogHandler :: "'f Handler \<Rightarrow> 'f Events \<Rightarrow> 'f Handler" where
  "newLogHandler h events = logHandler h events"

fun Enabled :: "'f Handler \<Rightarrow> 'c \<Rightarrow> Level \<Rightarrow> bool" where
  "Enabled (JSON j) ctx level = JSON_Enabled j level"
| "Enabled (logHandler h events) ctx level = Enabled h ctx level"

fun WithAttrs :: "'f Handler \<Rightarrow> Attr list \<Rightarrow> 'f Handler" where
  "WithAttrs (JSON j) attrs = JSON (JSON_WithAttrs j attrs)"
| "WithAttrs (logHandler h events) attrs = logHandler (WithAttrs h attrs) events"

fun WithGroup :: "'f Handler \<Rightarrow> string \<Rightarrow> 'f Handler" where
  "WithGroup (JSON j) name = JSON (JSON_WithGroup j name)"
| "WithGroup (logHandler h events) name = logHandler (WithGroup h name) events"

text \<open>
  \<^verbatim>\<open>Handle\<close>: the switch on the record's level calls the callback of that level when
  there is one, then the record goes to the wrapped handler.
\<close>

fun Handle :: "env \<Rightarrow> 'f Handler \<Rightarrow> 'c \<Rightarrow> slog_Record \<Rightarrow> ('c, 'f) event list" where
  "Handle e (JSON j) ctx r = JSON_Handle e j r"
| "Handle e (logHandler h events) ctx r =
     (if rLevel r = LevelDebug then
        (case Debug events of None \<Rightarrow> [] | Some fn \<Rightarrow> [CallEventFn fn ctx (toRecord r)])
      else if rLevel r = LevelError then
        (case Error events of None \<Rightarrow> [] | Some fn \<Rightarrow> [CallEventFn fn ctx (toRecord r)])
      else if rLevel r = LevelWarn then
        (case Warn events of None \<Rightarrow> [] | Some fn \<Rightarrow> [CallEventFn fn ctx (toRecord r)])
      else if rLevel r = LevelInfo then
        (case Info events of None \<Rightarrow> [] | Some fn \<Rightarrow> [CallEventFn fn ctx (toRecord r)])
      else [])
     @ Handle e h ctx r"

subsection \<open>The logHandler structs in memory\<close>

text \<open>
  \<^verbatim>\<open>type logHandler struct { handler slog.Handler; events Events }\<close>: the table is a
  field of the struct, held by value.  The methods have pointer receivers, and
  \<^verbatim>\<open>newLogHandler\<close>, \<^verbatim>\<open>WithAttrs\<close> and \<^verbatim>\<open>WithGroup\<close> return \<^verbatim>\<open>&logHandler{...}\<close>,
  the address of a new struct.  The heap is the list of the structs allocated so
  far and a pointer is a position in it; the wrapped handler is kept as a value.
  Calling a method through a pointer to no struct panics, which is \<open>None\<close>.
\<close>

record 'f logHandler_struct =
  struct_handler :: "'f Handler"
  struct_events :: "'f Events"

type_synonym 'f heap = "'f logHandler_struct list"

definition allocate :: "'f heap \<Rightarrow> 'f logHandler_struct \<Rightarrow> nat \<times> 'f heap" where
  "allocate hp x = (length hp, hp @ [x])"

definition logHandler_new :: "'f heap \<Rightarrow> 'f Handler \<Rightarrow> 'f Events \<Rightarrow> nat \<times> 'f heap" where
  "logHandler_new hp h events = allocate hp \<lparr> struct_handler = h, struct_events = events \<rparr>"

definition logHandler_WithAttrs ::
  "'f heap \<Rightarrow> nat \<Rightarrow> Attr list \<Rightarrow> (nat \<times> 'f heap) option" where
  "logHandler_WithAttrs hp h attrs =
     (if h < length hp
      then Some (allocate hp
             \<lparr> struct_handler = WithAttrs (struct_handler (hp ! h)) attrs,
               struct_events = struct_events (hp ! h) \<rparr>)
      else None)"

definition logHandler_WithGroup ::
  "'f heap \<Rightarrow> nat \<Rightarrow> string \<Rightarrow> (nat \<times> 'f heap) option" where
  "logHandler_WithGroup hp h name =
     (if h < length hp
      then Some (allocate hp
             \<lparr> struct_handler = WithGroup (struct_handler (hp ! h)) name,
               struct_events = struct_events (hp ! h) \<rparr>)
      else None)"

text \<open>The handler that a pointer stands for, as a value.\<close>

definition pipeline :: "'f heap \<Rightarrow> nat \<Rightarrow> 'f Handler" where
  "pipeline hp h = logHandler (struct_handler (hp ! h)) (struct_events (hp ! h))"

subsection \<open>The logger (Logger, its constructors and methods)\<close>

record ('c, 'f) Logger =
  discard :: bool
  handler :: "'f Handler"
  traceIDFn :: "('c \<Rightarrow> string) option"

text \<open>
  \<^verbatim>\<open>write\<close>: nothing happens when the handler does not enable the level.  Otherwise
  the program counter at the given depth is read, the record is made with the
  current time, the trace id is appended to the arguments when a trace function is
  there, the arguments are added to the record and the record is handled.  The
  error that \<^verbatim>\<open>Handle\<close> returns is dropped by \<^verbatim>\<open>write\<close> and is not part of the model.
  The method is \<open>Logger_write\<close> here, and the eight public methods carry the same
  prefix, because \<open>Debug\<close>, \<open>Info\<close>, \<open>Warn\<close> and \<open>Error\<close> are the fields of
  \<open>Events\<close>.
\<close>

definition Logger_write ::
  "env \<Rightarrow> ('c, 'f) Logger \<Rightarrow> 'c \<Rightarrow> Level \<Rightarrow> int \<Rightarrow> string \<Rightarrow> any list \<Rightarrow> ('c, 'f) event list" where
  "Logger_write e log ctx level caller msg args =
     (if \<not> Enabled (handler log) ctx level then []
      else
        let pc = runtime_Callers e caller;
            r = NewRecord (time_Now e) level msg pc;
            args' = (case traceIDFn log of
                       None \<Rightarrow> args
                     | Some fn \<Rightarrow> args @ [AnyString ''trace_id'', AnyString (fn ctx)]);
            r' = Add r args'
        in [CallCallers caller, CallNow]
           @ (case traceIDFn log of None \<Rightarrow> [] | Some fn \<Rightarrow> [CallTraceIDFn ctx])
           @ Handle e (handler log) ctx r')"

text \<open>The eight methods.  The plain ones fix the caller depth at 3.\<close>

definition Logger_Debug ::
  "env \<Rightarrow> ('c, 'f) Logger \<Rightarrow> 'c \<Rightarrow> string \<Rightarrow> any list \<Rightarrow> ('c, 'f) event list" where
  "Logger_Debug e log ctx msg args =
     (if discard log then [] else Logger_write e log ctx LevelDebug 3 msg args)"

definition Logger_Debugc ::
  "env \<Rightarrow> ('c, 'f) Logger \<Rightarrow> 'c \<Rightarrow> int \<Rightarrow> string \<Rightarrow> any list \<Rightarrow> ('c, 'f) event list" where
  "Logger_Debugc e log ctx caller msg args =
     (if discard log then [] else Logger_write e log ctx LevelDebug caller msg args)"

definition Logger_Info ::
  "env \<Rightarrow> ('c, 'f) Logger \<Rightarrow> 'c \<Rightarrow> string \<Rightarrow> any list \<Rightarrow> ('c, 'f) event list" where
  "Logger_Info e log ctx msg args =
     (if discard log then [] else Logger_write e log ctx LevelInfo 3 msg args)"

definition Logger_Infoc ::
  "env \<Rightarrow> ('c, 'f) Logger \<Rightarrow> 'c \<Rightarrow> int \<Rightarrow> string \<Rightarrow> any list \<Rightarrow> ('c, 'f) event list" where
  "Logger_Infoc e log ctx caller msg args =
     (if discard log then [] else Logger_write e log ctx LevelInfo caller msg args)"

definition Logger_Warn ::
  "env \<Rightarrow> ('c, 'f) Logger \<Rightarrow> 'c \<Rightarrow> string \<Rightarrow> any list \<Rightarrow> ('c, 'f) event list" where
  "Logger_Warn e log ctx msg args =
     (if discard log then [] else Logger_write e log ctx LevelWarn 3 msg args)"

definition Logger_Warnc ::
  "env \<Rightarrow> ('c, 'f) Logger \<Rightarrow> 'c \<Rightarrow> int \<Rightarrow> string \<Rightarrow> any list \<Rightarrow> ('c, 'f) event list" where
  "Logger_Warnc e log ctx caller msg args =
     (if discard log then [] else Logger_write e log ctx LevelWarn caller msg args)"

definition Logger_Error ::
  "env \<Rightarrow> ('c, 'f) Logger \<Rightarrow> 'c \<Rightarrow> string \<Rightarrow> any list \<Rightarrow> ('c, 'f) event list" where
  "Logger_Error e log ctx msg args =
     (if discard log then [] else Logger_write e log ctx LevelError 3 msg args)"

definition Logger_Errorc ::
  "env \<Rightarrow> ('c, 'f) Logger \<Rightarrow> 'c \<Rightarrow> int \<Rightarrow> string \<Rightarrow> any list \<Rightarrow> ('c, 'f) event list" where
  "Logger_Errorc e log ctx caller msg args =
     (if discard log then [] else Logger_write e log ctx LevelError caller msg args)"

text \<open>
  \<^verbatim>\<open>filepath.Base\<close> (with \<^verbatim>\<open>/\<close> as the separator): the last element of the path
  after trailing separators are removed; \<^verbatim>\<open>.\<close> for the empty path and \<^verbatim>\<open>/\<close> for
  a path of separators only.  \<open>showInt\<close> is the verb \<^verbatim>\<open>%d\<close>.
\<close>

definition Base :: "string \<Rightarrow> string" where
  "Base path =
     (if path = [] then ''.''
      else let p = rev (dropWhile (\<lambda>c. c = CHR ''/'') (rev path))
           in if p = [] then ''/''
              else rev (takeWhile (\<lambda>c. c \<noteq> CHR ''/'') (rev p)))"

fun showNat :: "nat \<Rightarrow> string" where
  "showNat n =
     (if n < 10 then [''0123456789'' ! n]
      else showNat (n div 10) @ [''0123456789'' ! (n mod 10)])"

definition showInt :: "int \<Rightarrow> string" where
  "showInt i = (if i < 0 then CHR ''-'' # showNat (nat (- i)) else showNat (nat i))"

text \<open>
  The closure \<^verbatim>\<open>f\<close> of \<^verbatim>\<open>new\<close>, given to the JSON handler as \<^verbatim>\<open>ReplaceAttr\<close>: an
  attribute with the key \<^verbatim>\<open>source\<close> whose value is a \<^verbatim>\<open>*slog.Source\<close> becomes the
  attribute \<^verbatim>\<open>file\<close> with the file's base name and the line; any other attribute
  is returned as it is.
\<close>

definition new_f :: "string list \<Rightarrow> Attr \<Rightarrow> Attr" where
  "new_f gs a =
     (if fst a = SourceKey then
        (case snd a of
           AnySource source \<Rightarrow>
             (''file'', AnyString (Base (File source) @ '':'' @ showInt (Line source)))
         | _ \<Rightarrow> a)
      else a)"

text \<open>
  \<^verbatim>\<open>new\<close>: the JSON handler with the source position and the minimum level, inside
  a \<^verbatim>\<open>logHandler\<close> when at least one callback is there, and then \<^verbatim>\<open>WithAttrs\<close> with
  the service name.
\<close>

definition new ::
  "Writer \<Rightarrow> Level \<Rightarrow> string \<Rightarrow> ('c \<Rightarrow> string) option \<Rightarrow> 'f Events \<Rightarrow> ('c, 'f) Logger" where
  "new wr minLevel serviceName traceFn events =
     (let h0 = JSON (NewJSONHandler wr
                 \<lparr> AddSource = True, MinLevel = Some minLevel, ReplaceAttr = Some new_f \<rparr>);
          h1 = (if Debug events \<noteq> None \<or> Info events \<noteq> None
                   \<or> Warn events \<noteq> None \<or> Error events \<noteq> None
                then newLogHandler h0 events else h0);
          attrs = [(''service'', AnyString serviceName)];
          h2 = WithAttrs h1 attrs
      in \<lparr> discard = (wr = Discard), handler = h2, traceIDFn = traceFn \<rparr>)"

definition New ::
  "Writer \<Rightarrow> Level \<Rightarrow> string \<Rightarrow> ('c \<Rightarrow> string) option \<Rightarrow> ('c, 'f) Logger" where
  "New wr minLevel serviceName traceFn =
     new wr minLevel serviceName traceFn
       \<lparr> Debug = None, Info = None, Warn = None, Error = None \<rparr>"

definition NewWithEvents ::
  "Writer \<Rightarrow> Level \<Rightarrow> string \<Rightarrow> ('c \<Rightarrow> string) option \<Rightarrow> 'f Events \<Rightarrow> ('c, 'f) Logger" where
  "NewWithEvents wr minLevel serviceName traceFn events =
     new wr minLevel serviceName traceFn events"

definition NewWithHandler :: "'f Handler \<Rightarrow> ('c, 'f) Logger" where
  "NewWithHandler h = \<lparr> discard = False, handler = h, traceIDFn = None \<rparr>"

section \<open>The log filter (apis/tooling/logfmt)\<close>

text \<open>
  The program reads lines, decodes each as JSON into a \<^verbatim>\<open>map[string]any\<close> and
  prints the selected lines in a fixed layout.  \<^verbatim>\<open>encoding/json\<close> and \<^verbatim>\<open>fmt\<close>
  are Go's standard library: the decoder, and the printing of values that are not
  strings, are parameters of the model.
\<close>

text \<open>What \<^verbatim>\<open>json.Unmarshal\<close> stores in an \<^verbatim>\<open>any\<close>; \<open>JNull\<close> is Go's nil.\<close>

typedecl float64

datatype jvalue =
    JNull
  | JBool bool
  | JNumber float64
  | JString string
  | JArray "jvalue list"
  | JObject "(string \<times> jvalue) list"

text \<open>
  A decoded map is the list of its entries, with distinct keys, in the order in which
  \<^verbatim>\<open>range\<close> visits them; Go leaves that order open, so a statement that holds for
  every decoder holds for every order.  \<open>Unmarshal\<close> gives \<open>None\<close> when
  \<^verbatim>\<open>json.Unmarshal\<close> returns an error.  \<open>Sprint_other\<close> prints a value that is not a
  string under a verb.  \<open>ToLower_unicode\<close> is \<^verbatim>\<open>strings.ToLower\<close> on a string that
  is not all ASCII.
\<close>

datatype verb = Verb_s | Verb_v

record lib =
  Unmarshal :: "string \<Rightarrow> (string \<times> jvalue) list option"
  Sprint_other :: "verb \<Rightarrow> jvalue \<Rightarrow> string"
  ToLower_unicode :: "string \<Rightarrow> string"

text \<open>\<^verbatim>\<open>fmt.Sprintf\<close> of one value under \<^verbatim>\<open>%s\<close> or \<^verbatim>\<open>%v\<close>: a string prints as itself.\<close>

definition Sprint :: "lib \<Rightarrow> verb \<Rightarrow> jvalue \<Rightarrow> string" where
  "Sprint l vb x = (case x of JString str \<Rightarrow> str | _ \<Rightarrow> Sprint_other l vb x)"

text \<open>\<^verbatim>\<open>m[k]\<close>: the value stored under the key, nil when there is none.\<close>

definition index :: "(string \<times> jvalue) list \<Rightarrow> string \<Rightarrow> jvalue" where
  "index m k = (case map_of m k of None \<Rightarrow> JNull | Some v \<Rightarrow> v)"

text \<open>
  \<^verbatim>\<open>strings.ToLower\<close>: in a string of ASCII bytes only, the letters A to Z are
  mapped to a to z and every other byte is kept; any other string is mapped rune by
  rune by the library.
\<close>

definition ToLower :: "lib \<Rightarrow> string \<Rightarrow> string" where
  "ToLower l str =
     (if list_all (\<lambda>c. (of_char c :: nat) < 128) str
      then map (\<lambda>c. if 65 \<le> (of_char c :: nat) \<and> (of_char c :: nat) \<le> 90
                    then char_of ((of_char c :: nat) + 32) else c) str
      else ToLower_unicode l str)"

text \<open>
  The errors of the program: the panic of the failed type assertion, and the error
  of the scanner for a line that does not fit its buffer.
\<close>

datatype error = PanicInterfaceConversion | ErrTooLong

text \<open>
  \<^verbatim>\<open>bufio.Scanner\<close> with its default split function \<^verbatim>\<open>ScanLines\<close> and its default
  buffer of \<^verbatim>\<open>MaxScanTokenSize\<close> bytes, on the bytes of standard input: all the lines
  that successive calls of \<^verbatim>\<open>Scan\<close> deliver, and the error that \<^verbatim>\<open>Err\<close> reports
  afterwards.  A line ends at the next newline or at the end of the input, and is
  delivered without the newline and without a carriage return before it.  When the
  buffer is full and holds no newline, \<^verbatim>\<open>Scan\<close> gives up with \<^verbatim>\<open>ErrTooLong\<close>: this
  happens when the bytes before the next newline, or before the end of the input,
  are \<^verbatim>\<open>MaxScanTokenSize\<close> or more.
\<close>

definition MaxScanTokenSize :: nat where
  "MaxScanTokenSize = 64 * 1024"

definition dropCR :: "string \<Rightarrow> string" where
  "dropCR data = (if data \<noteq> [] \<and> last data = CHR 0x0D then butlast data else data)"

function Scan :: "string \<Rightarrow> string list \<times> error option" where
  "Scan input =
     (if input = [] then ([], None)
      else let line = takeWhile (\<lambda>c. c \<noteq> CHR 0x0A) input
           in if MaxScanTokenSize \<le> length line then ([], Some ErrTooLong)
              else (dropCR line # fst (Scan (drop (Suc (length line)) input)),
                    snd (Scan (drop (Suc (length line)) input))))"
  by pat_completeness auto
termination
  by (relation "measure length") auto

text \<open>The second loop of the body: every entry that is not a main field, as \<^verbatim>\<open>k[v]: \<close>.\<close>

fun extras :: "lib \<Rightarrow> (string \<times> jvalue) list \<Rightarrow> string" where
  "extras l [] = []"
| "extras l ((k, v) # m) =
     (if k \<in> {''service'', ''time'', ''file'', ''level'', ''trace_id'', ''msg''}
      then extras l m
      else k @ ''['' @ Sprint l Verb_v v @ '']: '' @ extras l m)"

text \<open>
  The body of the loop after the filter: the trace id or its default, the six main
  fields, the other fields, and the line without its last two characters.
\<close>

definition format :: "lib \<Rightarrow> (string \<times> jvalue) list \<Rightarrow> string" where
  "format l m =
     (let traceID = (case map_of m ''trace_id'' of
                       None \<Rightarrow> ''00000000-0000-0000-0000-000000000000''
                     | Some v \<Rightarrow> Sprint l Verb_v v);
          b = Sprint l Verb_s (index m ''service'') @ '': ''
              @ Sprint l Verb_s (index m ''time'') @ '': ''
              @ Sprint l Verb_s (index m ''file'') @ '': ''
              @ Sprint l Verb_s (index m ''level'') @ '': ''
              @ traceID @ '': ''
              @ Sprint l Verb_s (index m ''msg'') @ '': '';
          out = b @ extras l m
      in take (length out - 2) out)"

text \<open>
  One turn of the loop for the line \<open>s\<close>, with the lower-cased filter: the lines it
  prints, or the panic of \<^verbatim>\<open>m["service"].(string)\<close>, which is evaluated only when
  the filter is not empty.
\<close>

definition scanLine :: "lib \<Rightarrow> string \<Rightarrow> string \<Rightarrow> error + string list" where
  "scanLine l service s =
     (case Unmarshal l s of
        None \<Rightarrow> Inr (if service = [] then [s] else [])
      | Some m \<Rightarrow>
          if service \<noteq> [] then
            (case index m ''service'' of
               JString x \<Rightarrow> if ToLower l x \<noteq> service then Inr [] else Inr [format l m]
             | _ \<Rightarrow> Inl PanicInterfaceConversion)
          else Inr [format l m])"

text \<open>
  The body over the lines the scanner delivers: the lines printed and, when a turn
  panics, the panic.
\<close>

fun scanLoop :: "lib \<Rightarrow> string \<Rightarrow> string list \<Rightarrow> string list \<times> error option" where
  "scanLoop l service [] = ([], None)"
| "scanLoop l service (s # rest) =
     (case scanLine l service s of
        Inl err \<Rightarrow> ([], Some err)
      | Inr out \<Rightarrow> (out @ fst (scanLoop l service rest), snd (scanLoop l service rest)))"

text \<open>
  How the program ends: \<^verbatim>\<open>main\<close> returns, after it has logged the scanner's error
  if there is one, or a panic ends the program.
\<close>

datatype ending = Returned "error option" | Panicked error

text \<open>
  \<^verbatim>\<open>main\<close>, given the value of the flag \<^verbatim>\<open>-service\<close> and the bytes of standard
  input: the lines printed on standard output and the way the program ends.  In
  the program the scanner and the body take turns.  The body does not touch the
  input, so the lines it is given are those of \<open>Scan\<close>, one after the other, until
  a turn panics or the scanner stops.
\<close>

definition logfmt_main :: "lib \<Rightarrow> string \<Rightarrow> string \<Rightarrow> string list \<times> ending" where
  "logfmt_main l flag stdin =
     (let service = ToLower l flag;
          scanned = Scan stdin;
          looped = scanLoop l service (fst scanned)
      in (fst looped,
          case snd looped of
            Some err \<Rightarrow> Panicked err
          | None \<Rightarrow> Returned (snd scanned)))"

section \<open>Notions used in the statements\<close>

text \<open>The lines written and the callbacks called in a list of events, in order.\<close>

fun written :: "('c, 'f) event list \<Rightarrow> Member list list" where
  "written [] = []"
| "written (WriteLine wr ms # evs) = ms # written evs"
| "written (ev # evs) = written evs"

fun hooked :: "('c, 'f) event list \<Rightarrow> ('f \<times> 'c \<times> Record) list" where
  "hooked [] = []"
| "hooked (CallEventFn fn ctx r # evs) = (fn, ctx, r) # hooked evs"
| "hooked (ev # evs) = hooked evs"


text \<open>The function \<open>fn\<close> is the callback that the table holds for this very level.\<close>

definition registered :: "'f Events \<Rightarrow> Level \<Rightarrow> 'f \<Rightarrow> bool" where
  "registered events level fn \<longleftrightarrow>
     level = LevelDebug \<and> Debug events = Some fn
     \<or> level = LevelInfo \<and> Info events = Some fn
     \<or> level = LevelWarn \<and> Warn events = Some fn
     \<or> level = LevelError \<and> Error events = Some fn"

text \<open>
  The arguments of a log call end in a key without a value: read from the left as
  \<^verbatim>\<open>Record.Add\<close> reads them, the last argument is a string in the place of a key.
\<close>

fun dangling :: "any list \<Rightarrow> bool" where
  "dangling [] = False"
| "dangling [AnyString x] = True"
| "dangling (AnyString x # v # args) = dangling args"
| "dangling (x # args) = dangling args"


text \<open>
  A line of input, without its newline, that fits the scanner's buffer, and the
  input made of whole lines.
\<close>

definition fits :: "string \<Rightarrow> bool" where
  "fits s \<longleftrightarrow> CHR 0x0A \<notin> set s \<and> length s < MaxScanTokenSize"

definition unlines :: "string list \<Rightarrow> string" where
  "unlines ls = concat (map (\<lambda>s. s @ [CHR 0x0A]) ls)"

text \<open>The options that \<^verbatim>\<open>new\<close> gives to the JSON handler.\<close>

definition new_opts :: "Level \<Rightarrow> HandlerOptions" where
  "new_opts m = \<lparr> AddSource = True, MinLevel = Some m, ReplaceAttr = Some new_f \<rparr>"

section \<open>Concrete inputs for the examples\<close>

text \<open>
  An environment in which the caller at depth 3 is line 39 of a file
  \<^verbatim>\<open>/app/sales/main.go\<close> and the time is 17, a trace function that returns
  \<^verbatim>\<open>abc\<close>, and a table with callbacks for Info and Error, as the sales service
  registers one for Error.
\<close>

definition example_env :: env where
  "example_env =
     \<lparr> time_Now = 17,
       runtime_Callers = (\<lambda>skip. if skip = 3 then 100 else 0),
       runtime_Frame = (\<lambda>pc. if pc = 100
          then \<lparr> Function = ''main.run'', File = ''/app/sales/main.go'', Line = 39 \<rparr>
          else \<lparr> Function = [], File = [], Line = 0 \<rparr>) \<rparr>"

definition example_traceIDFn :: "unit \<Rightarrow> string" where
  "example_traceIDFn ctx = ''abc''"

definition example_events :: "nat Events" where
  "example_events = \<lparr> Debug = None, Info = Some 5, Warn = None, Error = Some 7 \<rparr>"

text \<open>
  A decoder to run the filter on text: it reads one JSON object whose members are
  strings without escapes (a later member replaces an earlier one with the same key)
  and rejects every other input.  It stands in for \<^verbatim>\<open>json.Unmarshal\<close> in the closed
  examples only; the theorems about the filter hold for every decoder.
\<close>

datatype dstate = DStart | DFirstKey | DKey | DInKey | DColon | DValue | DInValue | DNext | DDone | DFail

definition isSpace :: "char \<Rightarrow> bool" where
  "isSpace c = (c = CHR '' '' \<or> c = CHR 0x09 \<or> c = CHR 0x0A \<or> c = CHR 0x0D)"

definition plainChar :: "char \<Rightarrow> bool" where
  "plainChar c = (c \<noteq> CHR 0x22 \<and> c \<noteq> CHR 0x5C \<and> 32 \<le> (of_char c :: nat))"

definition put :: "string \<Rightarrow> jvalue \<Rightarrow> (string \<times> jvalue) list \<Rightarrow> (string \<times> jvalue) list" where
  "put k v m = filter (\<lambda>kv. fst kv \<noteq> k) m @ [(k, v)]"

fun dstep :: "dstate \<times> string \<times> string \<times> (string \<times> jvalue) list \<Rightarrow> char
    \<Rightarrow> dstate \<times> string \<times> string \<times> (string \<times> jvalue) list" where
  "dstep (DStart, k, b, m) c =
     (if isSpace c then (DStart, k, b, m) else if c = CHR ''{'' then (DFirstKey, k, b, m) else (DFail, k, b, m))"
| "dstep (DFirstKey, k, b, m) c =
     (if isSpace c then (DFirstKey, k, b, m) else if c = CHR 0x22 then (DInKey, k, [], m)
      else if c = CHR ''}'' then (DDone, k, b, m) else (DFail, k, b, m))"
| "dstep (DKey, k, b, m) c =
     (if isSpace c then (DKey, k, b, m) else if c = CHR 0x22 then (DInKey, k, [], m) else (DFail, k, b, m))"
| "dstep (DInKey, k, b, m) c =
     (if c = CHR 0x22 then (DColon, b, [], m) else if plainChar c then (DInKey, k, b @ [c], m) else (DFail, k, b, m))"
| "dstep (DColon, k, b, m) c =
     (if isSpace c then (DColon, k, b, m) else if c = CHR '':'' then (DValue, k, b, m) else (DFail, k, b, m))"
| "dstep (DValue, k, b, m) c =
     (if isSpace c then (DValue, k, b, m) else if c = CHR 0x22 then (DInValue, k, [], m) else (DFail, k, b, m))"
| "dstep (DInValue, k, b, m) c =
     (if c = CHR 0x22 then (DNext, k, [], put k (JString b) m) else if plainChar c then (DInValue, k, b @ [c], m) else (DFail, k, b, m))"
| "dstep (DNext, k, b, m) c =
     (if isSpace c then (DNext, k, b, m) else if c = CHR '','' then (DKey, k, b, m)
      else if c = CHR ''}'' then (DDone, k, b, m) else (DFail, k, b, m))"
| "dstep (DDone, k, b, m) c = (if isSpace c then (DDone, k, b, m) else (DFail, k, b, m))"
| "dstep (DFail, k, b, m) c = (DFail, k, b, m)"

definition decodeFlat :: "string \<Rightarrow> (string \<times> jvalue) list option" where
  "decodeFlat s = (case foldl dstep (DStart, [], [], []) s of (DDone, k, b, m) \<Rightarrow> Some m | _ \<Rightarrow> None)"

definition example_lib :: lib where
  "example_lib =
     \<lparr> Unmarshal = decodeFlat, Sprint_other = (\<lambda>vb x. ''?''), ToLower_unicode = (\<lambda>str. str) \<rparr>"

text \<open>The input lines of the examples and the maps they decode to.\<close>

definition roundtrip_line :: string where
  \<open>roundtrip_line = ''{"service":"SALES","time":"t1","file":"f.go:10","level":"INFO","trace_id":"abc","msg":"hello","extra":"x"}''\<close>

definition roundtrip_fields :: "(string \<times> jvalue) list" where
  "roundtrip_fields =
     [(''service'', JString ''SALES''), (''time'', JString ''t1''),
      (''file'', JString ''f.go:10''), (''level'', JString ''INFO''),
      (''trace_id'', JString ''abc''), (''msg'', JString ''hello''),
      (''extra'', JString ''x'')]"

definition notrace_line :: string where
  \<open>notrace_line = ''{"service":"SALES","time":"t1","file":"f.go:10","level":"INFO","msg":"hello","extra":"x"}''\<close>

definition notrace_fields :: "(string \<times> jvalue) list" where
  "notrace_fields =
     [(''service'', JString ''SALES''), (''time'', JString ''t1''),
      (''file'', JString ''f.go:10''), (''level'', JString ''INFO''),
      (''msg'', JString ''hello''), (''extra'', JString ''x'')]"

definition noservice_line :: string where
  \<open>noservice_line = ''{"msg":"hello"}''\<close>

text \<open>
  Two lines of more than 64 KiB: one that is not JSON, and an object with one long
  member and no \<^verbatim>\<open>service\<close>.
\<close>

definition long_text :: string where
  "long_text = replicate 65536 (CHR ''x'')"

definition long_object :: string where
  \<open>long_object = ''{"msg":"'' @ replicate 65536 (CHR ''x'') @ ''"}''\<close>

text \<open>A heap with one \<^verbatim>\<open>logHandler\<close> struct around a JSON handler, and an empty table.\<close>

definition example_sink :: JSONHandler where
  "example_sink = NewJSONHandler (Writer 1) (new_opts LevelInfo)"

definition example_heap :: "nat heap" where
  "example_heap = [\<lparr> struct_handler = JSON example_sink, struct_events = example_events \<rparr>]"

definition no_events :: "nat Events" where
  "no_events = \<lparr> Debug = None, Info = None, Warn = None, Error = None \<rparr>"

section \<open>Lemmas about the logger\<close>

lemmas level_defs = LevelDebug_def LevelInfo_def LevelWarn_def LevelError_def

lemma written_append: "written (xs @ ys) = written xs @ written ys"
  by (induction xs rule: written.induct) auto

lemma hooked_append: "hooked (xs @ ys) = hooked xs @ hooked ys"
  by (induction xs rule: hooked.induct) auto

lemma argsToAttrs_append:
  "\<not> dangling args \<Longrightarrow> argsToAttrs (args @ rest) = argsToAttrs args @ argsToAttrs rest"
  by (induction args rule: argsToAttrs.induct) auto

lemma Handle_logHandler:
  "\<exists>hooks. Handle e (logHandler h events) ctx r = hooks @ Handle e h ctx r
      \<and> length hooks \<le> 1
      \<and> (\<forall>ev \<in> set hooks. \<exists>fn. ev = CallEventFn fn ctx (toRecord r) \<and> registered events (rLevel r) fn)
      \<and> (hooks = [] \<longleftrightarrow> (\<forall>fn. \<not> registered events (rLevel r) fn))"
proof -
  let ?P = "\<lambda>hooks. Handle e (logHandler h events) ctx r = hooks @ Handle e h ctx r
      \<and> length hooks \<le> 1
      \<and> (\<forall>ev \<in> set hooks. \<exists>fn. ev = CallEventFn fn ctx (toRecord r) \<and> registered events (rLevel r) fn)
      \<and> (hooks = [] \<longleftrightarrow> (\<forall>fn. \<not> registered events (rLevel r) fn))"
  have none: "?P []"
    if "Handle e (logHandler h events) ctx r = Handle e h ctx r"
      and "\<forall>fn. \<not> registered events (rLevel r) fn"
    using that by simp
  have one: "?P [CallEventFn fn ctx (toRecord r)]"
    if "Handle e (logHandler h events) ctx r = CallEventFn fn ctx (toRecord r) # Handle e h ctx r"
      and "registered events (rLevel r) fn" for fn
    using that by auto
  consider (debug) "rLevel r = LevelDebug" | (error) "rLevel r = LevelError"
    | (warn) "rLevel r = LevelWarn" | (info) "rLevel r = LevelInfo"
    | (other) "rLevel r \<noteq> LevelDebug" "rLevel r \<noteq> LevelError"
        "rLevel r \<noteq> LevelWarn" "rLevel r \<noteq> LevelInfo"
    by blast
  then show ?thesis
  proof cases
    case debug
    show ?thesis
    proof (cases "Debug events")
      case None
      with debug show ?thesis
        by (intro exI [of _ "[]"] none) (simp_all add: registered_def level_defs)
    next
      case (Some fn)
      with debug show ?thesis
        by (intro exI [of _ "[CallEventFn fn ctx (toRecord r)]"] one)
          (simp_all add: registered_def level_defs)
    qed
  next
    case error
    show ?thesis
    proof (cases "Error events")
      case None
      with error show ?thesis
        by (intro exI [of _ "[]"] none) (simp_all add: registered_def level_defs)
    next
      case (Some fn)
      with error show ?thesis
        by (intro exI [of _ "[CallEventFn fn ctx (toRecord r)]"] one)
          (simp_all add: registered_def level_defs)
    qed
  next
    case warn
    show ?thesis
    proof (cases "Warn events")
      case None
      with warn show ?thesis
        by (intro exI [of _ "[]"] none) (simp_all add: registered_def level_defs)
    next
      case (Some fn)
      with warn show ?thesis
        by (intro exI [of _ "[CallEventFn fn ctx (toRecord r)]"] one)
          (simp_all add: registered_def level_defs)
    qed
  next
    case info
    show ?thesis
    proof (cases "Info events")
      case None
      with info show ?thesis
        by (intro exI [of _ "[]"] none) (simp_all add: registered_def level_defs)
    next
      case (Some fn)
      with info show ?thesis
        by (intro exI [of _ "[CallEventFn fn ctx (toRecord r)]"] one)
          (simp_all add: registered_def level_defs)
    qed
  next
    case other
    then show ?thesis
      by (intro exI [of _ "[]"] none) (simp_all add: registered_def)
  qed
qed

lemma appendAttr_service:
  "appendAttr (new_opts m) [] (''service'', AnyString s) = [([''service''], AnyString s)]"
  by (simp add: appendAttr_def new_opts_def new_f_def SourceKey_def isEmptyAttr_def)

lemma handler_new:
  "handler (new wr m s tf events) =
     (let j = JSON \<lparr> jsonWriter = wr, jsonOpts = new_opts m,
                     jsonAttrs = [([''service''], AnyString s)], jsonGroups = [] \<rparr>
      in if Debug events \<noteq> None \<or> Info events \<noteq> None \<or> Warn events \<noteq> None \<or> Error events \<noteq> None
         then logHandler j events else j)"
  using appendAttr_service [of m s]
  by (simp add: new_def Let_def newLogHandler_def NewJSONHandler_def JSON_WithAttrs_def
      appendAttrs_def new_opts_def)

lemma Enabled_new: "Enabled (handler (new wr m s tf events)) ctx level \<longleftrightarrow> m \<le> level"
  by (simp add: handler_new Let_def JSON_Enabled_def new_opts_def)

lemma builtIns_new:
  "builtIns e (new_opts m) r =
     (if rTime r = 0 then [] else [([''time''], AnyTime (rTime r))])
     @ [([''level''], AnyLevel (rLevel r)),
        ([''file''], AnyString (Base (File (runtime_Frame e (rPC r))) @ '':''
                                 @ showInt (Line (runtime_Frame e (rPC r))))),
        ([''msg''], AnyString (rMessage r))]"
  by (simp add: builtIns_def appendAttr_def new_opts_def new_f_def isEmptyAttr_def
      TimeKey_def LevelKey_def SourceKey_def MessageKey_def)


lemma Handle_new:
  fixes ctx :: 'c and events :: "'f Events"
  shows
  "\<exists>hooks. Handle e (handler (new wr m s tf events)) ctx r
       = hooks @ [WriteLine wr (builtIns e (new_opts m) r @ [([''service''], AnyString s)]
                                 @ appendAttrs (new_opts m) [] (rAttrs r))]
      \<and> length hooks \<le> 1
      \<and> (\<forall>ev \<in> set hooks. \<exists>fn. ev = CallEventFn fn ctx (toRecord r) \<and> registered events (rLevel r) fn)"
proof -
  let ?j = "JSON \<lparr> jsonWriter = wr, jsonOpts = new_opts m,
                     jsonAttrs = [([''service''], AnyString s)], jsonGroups = [] \<rparr> :: 'f Handler"
  let ?line = "WriteLine wr (builtIns e (new_opts m) r @ [([''service''], AnyString s)]
                                 @ appendAttrs (new_opts m) [] (rAttrs r)) :: ('c, 'f) event"
  have sink: "Handle e ?j ctx r = [?line]"
    by (simp add: JSON_Handle_def)
  show ?thesis
  proof (cases "Debug events \<noteq> None \<or> Info events \<noteq> None \<or> Warn events \<noteq> None \<or> Error events \<noteq> None")
    case True
    then have h: "handler (new wr m s tf events) = logHandler ?j events"
      by (simp add: handler_new)
    from Handle_logHandler [of e ?j events ctx r]
    obtain hooks where
      1: "Handle e (logHandler ?j events) ctx r = hooks @ Handle e ?j ctx r"
      and 2: "length hooks \<le> 1"
      and 3: "\<forall>ev \<in> set hooks. \<exists>fn. ev = CallEventFn fn ctx (toRecord r) \<and> registered events (rLevel r) fn"
      by blast
    have "Handle e (handler (new wr m s tf events)) ctx r = hooks @ [?line]"
      unfolding h 1 sink by (rule refl)
    with 2 3 show ?thesis by blast
  next
    case False
    then have h: "handler (new wr m s tf events) = ?j"
      by (simp add: handler_new)
    have "Handle e (handler (new wr m s tf events)) ctx r = [] @ [?line]"
      unfolding h sink by simp
    then show ?thesis by (intro exI [of _ "[]"]) simp
  qed
qed

lemma Logger_write_new:
  "Logger_write e (new wr m s tf events) ctx level caller msg args =
     (if m \<le> level then
        [CallCallers caller, CallNow]
        @ (case tf of None \<Rightarrow> [] | Some fn \<Rightarrow> [CallTraceIDFn ctx])
        @ Handle e (handler (new wr m s tf events)) ctx
            (Add (NewRecord (time_Now e) level msg (runtime_Callers e caller))
               (case tf of None \<Rightarrow> args
                | Some fn \<Rightarrow> args @ [AnyString ''trace_id'', AnyString (fn ctx)]))
      else [])"
  by (simp add: Logger_write_def Enabled_new Let_def) (simp add: new_def Let_def)

lemma rLevel_Add_NewRecord [simp]: "rLevel (Add (NewRecord t level msg pc) args) = level"
  by (simp add: Add_def NewRecord_def)

lemma rTime_Add_NewRecord [simp]: "rTime (Add (NewRecord t level msg pc) args) = t"
  by (simp add: Add_def NewRecord_def)

lemma rMessage_Add_NewRecord [simp]: "rMessage (Add (NewRecord t level msg pc) args) = msg"
  by (simp add: Add_def NewRecord_def)

lemma rPC_Add_NewRecord [simp]: "rPC (Add (NewRecord t level msg pc) args) = pc"
  by (simp add: Add_def NewRecord_def)

lemma rAttrs_Add_NewRecord [simp]:
  "rAttrs (Add (NewRecord t level msg pc) args) = argsToAttrs args"
  by (simp add: Add_def NewRecord_def)

lemma appendAttr_new_trace_id:
  "([''trace_id''], v) \<in> set (appendAttr (new_opts m) [] a) \<longleftrightarrow> a = (''trace_id'', v)"
  by (cases a) (auto simp: appendAttr_def Let_def new_opts_def new_f_def isEmptyAttr_def SourceKey_def
      split: any.splits if_splits)

lemma appendAttr_new_source:
  "([''source''], AnySource src) \<notin> set (appendAttr (new_opts m) [] a)"
  by (cases a) (auto simp: appendAttr_def Let_def new_opts_def new_f_def isEmptyAttr_def SourceKey_def
      split: any.splits if_splits)

lemma appendAttrs_new_trace_id:
  "([''trace_id''], v) \<in> set (appendAttrs (new_opts m) [] as) \<longleftrightarrow> (''trace_id'', v) \<in> set as"
  by (auto simp: appendAttrs_def appendAttr_new_trace_id)

lemma appendAttrs_new_source:
  "([''source''], AnySource src) \<notin> set (appendAttrs (new_opts m) [] as)"
  by (auto simp: appendAttrs_def appendAttr_new_source)

lemma appendAttrs_append:
  "appendAttrs options gs (as @ bs) = appendAttrs options gs as @ appendAttrs options gs bs"
  by (simp add: appendAttrs_def)

lemma appendAttrs_new_trace:
  "appendAttrs (new_opts m) [] [(''trace_id'', AnyString t)] = [([''trace_id''], AnyString t)]"
  by (simp add: appendAttrs_def appendAttr_def new_opts_def new_f_def isEmptyAttr_def SourceKey_def)

lemma methods_write:
  "\<not> discard log \<Longrightarrow>
     Logger_Debug e log ctx msg args = Logger_write e log ctx LevelDebug 3 msg args
   \<and> Logger_Debugc e log ctx caller msg args = Logger_write e log ctx LevelDebug caller msg args
   \<and> Logger_Info e log ctx msg args = Logger_write e log ctx LevelInfo 3 msg args
   \<and> Logger_Infoc e log ctx caller msg args = Logger_write e log ctx LevelInfo caller msg args
   \<and> Logger_Warn e log ctx msg args = Logger_write e log ctx LevelWarn 3 msg args
   \<and> Logger_Warnc e log ctx caller msg args = Logger_write e log ctx LevelWarn caller msg args
   \<and> Logger_Error e log ctx msg args = Logger_write e log ctx LevelError 3 msg args
   \<and> Logger_Errorc e log ctx caller msg args = Logger_write e log ctx LevelError caller msg args"
  by (simp add: Logger_Debug_def Logger_Debugc_def Logger_Info_def Logger_Infoc_def
      Logger_Warn_def Logger_Warnc_def Logger_Error_def Logger_Errorc_def)

lemma written_hooks:
  "\<forall>ev \<in> set hooks. \<exists>fn c R. ev = CallEventFn fn c R \<Longrightarrow> written hooks = []"
  by (induction hooks) auto



lemma written_Logger_write_new:
  fixes ctx :: 'c and events :: "'f Events"
  assumes "m \<le> level"
  shows "written (Logger_write e (new wr m s tf events) ctx level caller msg args) =
     [(if time_Now e = 0 then [] else [([''time''], AnyTime (time_Now e))])
      @ [([''level''], AnyLevel level),
         ([''file''], AnyString (Base (File (runtime_Frame e (runtime_Callers e caller))) @ '':''
                         @ showInt (Line (runtime_Frame e (runtime_Callers e caller))))),
         ([''msg''], AnyString msg),
         ([''service''], AnyString s)]
      @ appendAttrs (new_opts m) []
          (argsToAttrs (case tf of None \<Rightarrow> args
                        | Some fn \<Rightarrow> args @ [AnyString ''trace_id'', AnyString (fn ctx)]))]"
proof -
  let ?r = "Add (NewRecord (time_Now e) level msg (runtime_Callers e caller))
               (case tf of None \<Rightarrow> args
                | Some fn \<Rightarrow> args @ [AnyString ''trace_id'', AnyString (fn ctx)])"
  from Handle_new [of e wr m s tf events ctx ?r]
  obtain hooks where
    1: "Handle e (handler (new wr m s tf events)) ctx ?r
       = hooks @ [WriteLine wr (builtIns e (new_opts m) ?r @ [([''service''], AnyString s)]
                                 @ appendAttrs (new_opts m) [] (rAttrs ?r))]"
    and 3: "\<forall>ev \<in> set hooks. \<exists>fn. ev = CallEventFn fn ctx (toRecord ?r) \<and> registered events (rLevel ?r) fn"
    by blast
  from 3 have "written hooks = []" by (intro written_hooks) blast
  then show ?thesis
    unfolding Logger_write_new 1 using assms
    by (simp add: written_append builtIns_new split: option.splits)
qed




section \<open>The hook handler and the logger: the claims\<close>

text \<open>
  C1.  \<^verbatim>\<open>logHandler.Handle\<close> calls at most one callback, the one the table holds for
  exactly the record's level, with the context and the normalized record, and then
  hands the record to the wrapped handler once, whatever the table holds.  For a
  logger made by \<^verbatim>\<open>new\<close> and a call at or above the minimum level this gives: the
  stack and the clock are read, the trace function is called when there is one, at
  most one callback is called, registered for the level of the call, and then one
  line is written.
\<close>

theorem hook_dispatch_then_sink:
  fixes ctx :: 'c and events :: "'f Events"
  shows
  "(\<exists>hooks. Handle e (logHandler h events) ctx r = hooks @ Handle e h ctx r
       \<and> length hooks \<le> 1
       \<and> (\<forall>ev \<in> set hooks. \<exists>fn. ev = CallEventFn fn ctx (toRecord r)
              \<and> registered events (rLevel r) fn)
       \<and> (hooks = [] \<longleftrightarrow> (\<forall>fn. \<not> registered events (rLevel r) fn)))
   \<and> (m \<le> level \<longrightarrow>
        (\<exists>hooks ms. Logger_write e (new wr m s tf events) ctx level caller msg args
             = [CallCallers caller, CallNow]
               @ (case tf of None \<Rightarrow> [] | Some fn \<Rightarrow> [CallTraceIDFn ctx])
               @ hooks @ [WriteLine wr ms]
           \<and> length hooks \<le> 1
           \<and> (\<forall>ev \<in> set hooks. \<exists>fn R. ev = CallEventFn fn ctx R \<and> registered events level fn)))"
proof (intro conjI impI)
  show "\<exists>hooks. Handle e (logHandler h events) ctx r = hooks @ Handle e h ctx r
       \<and> length hooks \<le> 1
       \<and> (\<forall>ev \<in> set hooks. \<exists>fn. ev = CallEventFn fn ctx (toRecord r)
              \<and> registered events (rLevel r) fn)
       \<and> (hooks = [] \<longleftrightarrow> (\<forall>fn. \<not> registered events (rLevel r) fn))"
    by (rule Handle_logHandler)
next
  assume le: "m \<le> level"
  let ?r = "Add (NewRecord (time_Now e) level msg (runtime_Callers e caller))
               (case tf of None \<Rightarrow> args
                | Some fn \<Rightarrow> args @ [AnyString ''trace_id'', AnyString (fn ctx)])"
  from Handle_new [of e wr m s tf events ctx ?r]
  obtain hooks where
    1: "Handle e (handler (new wr m s tf events)) ctx ?r
       = hooks @ [WriteLine wr (builtIns e (new_opts m) ?r @ [([''service''], AnyString s)]
                                 @ appendAttrs (new_opts m) [] (rAttrs ?r))]"
    and 2: "length hooks \<le> 1"
    and 3: "\<forall>ev \<in> set hooks. \<exists>fn. ev = CallEventFn fn ctx (toRecord ?r) \<and> registered events (rLevel ?r) fn"
    by blast
  have lev: "rLevel ?r = level" by simp
  from 3 have 4: "\<forall>ev \<in> set hooks. \<exists>fn R. ev = CallEventFn fn ctx R \<and> registered events level fn"
    unfolding lev by blast
  have "Logger_write e (new wr m s tf events) ctx level caller msg args
             = [CallCallers caller, CallNow]
               @ (case tf of None \<Rightarrow> [] | Some fn \<Rightarrow> [CallTraceIDFn ctx])
               @ hooks @ [WriteLine wr (builtIns e (new_opts m) ?r @ [([''service''], AnyString s)]
                                 @ appendAttrs (new_opts m) [] (rAttrs ?r))]"
    unfolding Logger_write_new 1 using le by simp
  with 2 4 show "\<exists>hooks ms. Logger_write e (new wr m s tf events) ctx level caller msg args
             = [CallCallers caller, CallNow]
               @ (case tf of None \<Rightarrow> [] | Some fn \<Rightarrow> [CallTraceIDFn ctx])
               @ hooks @ [WriteLine wr ms]
           \<and> length hooks \<le> 1
           \<and> (\<forall>ev \<in> set hooks. \<exists>fn R. ev = CallEventFn fn ctx R \<and> registered events level fn)"
    by blast
qed

theorem hook_dispatch_then_sink_witness:
  "(\<exists>hooks. Handle example_env
          (logHandler (JSON (NewJSONHandler (Writer 1) (new_opts LevelInfo))) example_events)
          () (NewRecord 17 LevelError ''boom'' 100)
        = hooks @ Handle example_env (JSON (NewJSONHandler (Writer 1) (new_opts LevelInfo)))
                    () (NewRecord 17 LevelError ''boom'' 100)
      \<and> length hooks \<le> 1
      \<and> (\<forall>ev \<in> set hooks. \<exists>fn. ev = CallEventFn fn () (toRecord (NewRecord 17 LevelError ''boom'' 100))
             \<and> registered example_events LevelError fn)
      \<and> hooks \<noteq> [])
   \<and> LevelInfo \<le> LevelError
   \<and> (\<exists>hooks ms. Logger_write example_env
          (new (Writer 1) LevelInfo ''SALES'' (Some example_traceIDFn) example_events)
          () LevelError 3 ''boom'' []
        = [CallCallers 3, CallNow] @ [CallTraceIDFn ()] @ hooks @ [WriteLine (Writer 1) ms]
      \<and> length hooks \<le> 1
      \<and> (\<forall>ev \<in> set hooks. \<exists>fn R. ev = CallEventFn fn () R
             \<and> registered example_events LevelError fn))
   \<and> map fst (hooked (Logger_write example_env
          (new (Writer 1) LevelInfo ''SALES'' (Some example_traceIDFn) example_events)
          () LevelError 3 ''boom'' [])) = [7]"
proof -
  have le: "LevelInfo \<le> LevelError"
    by (simp add: level_defs)
  have reg: "registered example_events LevelError 7"
    by (simp add: registered_def example_events_def level_defs)
  have lev: "rLevel (NewRecord 17 LevelError ''boom'' 100) = LevelError"
    by (simp add: NewRecord_def)
  have fired: "map fst (hooked (Logger_write example_env
          (new (Writer 1) LevelInfo ''SALES'' (Some example_traceIDFn) example_events)
          () LevelError 3 ''boom'' [])) = [7::nat]"
    by (simp add: Logger_write_new handler_new level_defs example_events_def hooked_append
        JSON_Handle_def)
  from hook_dispatch_then_sink
    [where m = LevelInfo and level = LevelError and e = example_env and wr = "Writer 1"
       and s = "''SALES''" and tf = "Some example_traceIDFn" and events = example_events
       and ctx = "()" and caller = 3 and msg = "''boom''" and args = "[]"
       and h = "JSON (NewJSONHandler (Writer 1) (new_opts LevelInfo))"
       and r = "NewRecord 17 LevelError ''boom'' 100"]
    le fired reg
  show ?thesis
    unfolding lev by (simp del: Handle.simps) blast
qed

text \<open>
  C2.  On a logger made by \<^verbatim>\<open>New\<close> or \<^verbatim>\<open>NewWithEvents\<close>, a method whose level is
  below the minimum level does nothing at all: no callback is called, no line is
  written, the stack is not read and the trace function is not called.
\<close>

theorem below_minimum_silent:
  assumes "log = New wr m s tf \<or> log = NewWithEvents wr m s tf events"
  shows "(LevelDebug < m \<longrightarrow> Logger_Debug e log ctx msg args = []
                         \<and> Logger_Debugc e log ctx caller msg args = [])
       \<and> (LevelInfo < m \<longrightarrow> Logger_Info e log ctx msg args = []
                         \<and> Logger_Infoc e log ctx caller msg args = [])
       \<and> (LevelWarn < m \<longrightarrow> Logger_Warn e log ctx msg args = []
                         \<and> Logger_Warnc e log ctx caller msg args = [])
       \<and> (LevelError < m \<longrightarrow> Logger_Error e log ctx msg args = []
                         \<and> Logger_Errorc e log ctx caller msg args = [])"
proof -
  have w: "Logger_write e log ctx level k msg args = []" if "level < m" for level k
    using assms that by (auto simp: New_def NewWithEvents_def Logger_write_new)
  show ?thesis
    by (simp add: w Logger_Debug_def Logger_Debugc_def Logger_Info_def Logger_Infoc_def
        Logger_Warn_def Logger_Warnc_def Logger_Error_def Logger_Errorc_def)
qed

theorem below_minimum_silent_witness:
  "LevelDebug < 9 \<and> LevelInfo < 9 \<and> LevelWarn < 9 \<and> LevelError < 9
   \<and> Logger_Debug example_env (NewWithEvents (Writer 1) 9 ''SALES'' (Some example_traceIDFn) example_events)
        () ''boom'' [AnyString ''k'', AnyInt 1] = []
   \<and> Logger_Infoc example_env (NewWithEvents (Writer 1) 9 ''SALES'' (Some example_traceIDFn) example_events)
        () 4 ''boom'' [AnyString ''k'', AnyInt 1] = []
   \<and> Logger_Warn example_env (NewWithEvents (Writer 1) 9 ''SALES'' (Some example_traceIDFn) example_events)
        () ''boom'' [AnyString ''k'', AnyInt 1] = []
   \<and> Logger_Error example_env (NewWithEvents (Writer 1) 9 ''SALES'' (Some example_traceIDFn) example_events)
        () ''boom'' [AnyString ''k'', AnyInt 1] = []"
  using below_minimum_silent
    [where log = "NewWithEvents (Writer 1) 9 ''SALES'' (Some example_traceIDFn) example_events"
       and wr = "Writer 1" and m = 9 and s = "''SALES''" and tf = "Some example_traceIDFn"
       and events = example_events and e = example_env and ctx = "()" and msg = "''boom''"
       and args = "[AnyString ''k'', AnyInt 1]" and caller = 4]
  by (simp add: level_defs)

text \<open>
  C3.  \<^verbatim>\<open>new\<close> sets the discard flag exactly when the writer is \<^verbatim>\<open>io.Discard\<close>, and
  on a logger whose flag is set each of the eight methods does nothing, for every
  level and every argument: the stack is not read, no callback is called, no line
  is written and the trace function is not called.
\<close>

theorem discard_silent:
  fixes log :: "('c, 'f) Logger" and tf :: "('c \<Rightarrow> string) option" and events :: "'f Events"
  shows
  "(discard (new wr m s tf events :: ('c, 'f) Logger) \<longleftrightarrow> wr = Discard)
   \<and> (discard log \<longrightarrow>
        Logger_Debug e log ctx msg args = [] \<and> Logger_Debugc e log ctx caller msg args = []
      \<and> Logger_Info e log ctx msg args = [] \<and> Logger_Infoc e log ctx caller msg args = []
      \<and> Logger_Warn e log ctx msg args = [] \<and> Logger_Warnc e log ctx caller msg args = []
      \<and> Logger_Error e log ctx msg args = [] \<and> Logger_Errorc e log ctx caller msg args = [])"
  by (simp add: new_def Let_def Logger_Debug_def Logger_Debugc_def Logger_Info_def Logger_Infoc_def
        Logger_Warn_def Logger_Warnc_def Logger_Error_def Logger_Errorc_def)

theorem discard_silent_witness:
  "discard (new Discard LevelDebug ''SALES'' (Some example_traceIDFn) example_events :: (unit, nat) Logger)
   \<and> Logger_Error example_env
        (new Discard LevelDebug ''SALES'' (Some example_traceIDFn) example_events)
        () ''boom'' [AnyString ''k'', AnyInt 1] = []
   \<and> Logger_Debugc example_env
        (new Discard LevelDebug ''SALES'' (Some example_traceIDFn) example_events)
        () 2 ''boom'' [] = []"
  using discard_silent
    [where log = "new Discard LevelDebug ''SALES'' (Some example_traceIDFn) example_events"
       and wr = Discard and m = LevelDebug and s = "''SALES''" and tf = "Some example_traceIDFn"
       and events = example_events and e = example_env and ctx = "()" and msg = "''boom''"
       and args = "[AnyString ''k'', AnyInt 1]" and caller = 2]
    discard_silent
    [where log = "new Discard LevelDebug ''SALES'' (Some example_traceIDFn) example_events"
       and wr = Discard and m = LevelDebug and s = "''SALES''" and tf = "Some example_traceIDFn"
       and events = example_events and e = example_env and ctx = "()" and msg = "''boom''"
       and args = "[]" and caller = 2]
  by simp

text \<open>
  The trace id is appended to the caller's arguments before \<^verbatim>\<open>Record.Add\<close> pairs
  them.  When the caller's arguments end in a key without a value, that key takes
  the string \<^verbatim>\<open>trace_id\<close> as its value and the id itself is filed under
  \<^verbatim>\<open>!BADKEY\<close>: the line of the first call below has no \<^verbatim>\<open>trace_id\<close> member
  although a trace function is configured.  The second call is on a logger without
  a trace function, and its line has the \<^verbatim>\<open>trace_id\<close> that the caller passed.
\<close>

theorem trace_id_counterexample:
  "written (Logger_Info example_env
              (New (Writer 1) LevelInfo ''SALES'' (Some example_traceIDFn) :: (unit, nat) Logger)
              () ''hello'' [AnyString ''k''])
     = [[([''time''], AnyTime 17), ([''level''], AnyLevel 0),
         ([''file''], AnyString ''main.go:39''), ([''msg''], AnyString ''hello''),
         ([''service''], AnyString ''SALES''),
         ([''k''], AnyString ''trace_id''), ([''!BADKEY''], AnyString ''abc'')]]
   \<and> written (Logger_Info example_env
              (New (Writer 1) LevelInfo ''SALES'' None :: (unit, nat) Logger)
              () ''hello'' [AnyString ''trace_id'', AnyString ''x''])
     = [[([''time''], AnyTime 17), ([''level''], AnyLevel 0),
         ([''file''], AnyString ''main.go:39''), ([''msg''], AnyString ''hello''),
         ([''service''], AnyString ''SALES''),
         ([''trace_id''], AnyString ''x'')]]"
  by (simp add: Logger_Info_def New_def written_Logger_write_new level_defs example_env_def
      Base_def showInt_def appendAttrs_def appendAttr_def new_opts_def new_f_def SourceKey_def
      isEmptyAttr_def badKey_def example_traceIDFn_def)
   (simp add: new_def Let_def)

text \<open>
  C4, as the code has it.  Both public constructors are \<^verbatim>\<open>new\<close>, and every method
  of a logger that does not discard is \<^verbatim>\<open>write\<close> at its level.  For a call at or
  above the minimum level: when a trace
  function is configured and the caller's arguments do not end in a key without a
  value, the last member of the written line is \<^verbatim>\<open>trace_id\<close> with the value of the
  function for the context; when no trace function is configured the logger adds
  nothing, so the line has a \<^verbatim>\<open>trace_id\<close> member exactly when the caller's arguments
  supply one.
\<close>

theorem trace_id_injection:
  fixes ctx :: 'c and events :: "'f Events"
  assumes "m \<le> level"
  shows "(\<not> dangling args \<longrightarrow>
           (\<exists>ms. written (Logger_write e (new wr m s (Some fn) events) ctx level caller msg args)
                   = [ms @ [([''trace_id''], AnyString (fn ctx))]]))
       \<and> (\<exists>ms. written (Logger_write e (new wr m s None events) ctx level caller msg args) = [ms]
              \<and> (\<forall>v. ([''trace_id''], v) \<in> set ms \<longleftrightarrow> (''trace_id'', v) \<in> set (argsToAttrs args)))"
proof (intro conjI impI)
  assume nd: "\<not> dangling args"
  have "appendAttrs (new_opts m) [] (argsToAttrs (args @ [AnyString ''trace_id'', AnyString (fn ctx)]))
      = appendAttrs (new_opts m) [] (argsToAttrs args) @ [([''trace_id''], AnyString (fn ctx))]"
    by (simp add: argsToAttrs_append [OF nd] appendAttrs_append appendAttrs_new_trace)
  then show "\<exists>ms. written (Logger_write e (new wr m s (Some fn) events) ctx level caller msg args)
                   = [ms @ [([''trace_id''], AnyString (fn ctx))]]"
    by (simp add: written_Logger_write_new [OF assms] del: append_assoc add: append_assoc [symmetric])
next
  show "\<exists>ms. written (Logger_write e (new wr m s None events) ctx level caller msg args) = [ms]
              \<and> (\<forall>v. ([''trace_id''], v) \<in> set ms \<longleftrightarrow> (''trace_id'', v) \<in> set (argsToAttrs args))"
    by (simp add: written_Logger_write_new [OF assms] appendAttrs_new_trace_id)
qed

theorem trace_id_injection_witness:
  "LevelInfo \<le> LevelWarn
   \<and> \<not> dangling [AnyString ''k'', AnyInt 1]
   \<and> (\<exists>ms. written (Logger_write example_env
                 (new (Writer 1) LevelInfo ''SALES'' (Some example_traceIDFn) example_events)
                 () LevelWarn 3 ''hello'' [AnyString ''k'', AnyInt 1])
            = [ms @ [([''trace_id''], AnyString ''abc'')]])
   \<and> (\<exists>ms. written (Logger_write example_env
                 (new (Writer 1) LevelInfo ''SALES'' None example_events)
                 () LevelWarn 3 ''hello'' [AnyString ''k'', AnyInt 1]) = [ms]
            \<and> (\<forall>v. ([''trace_id''], v) \<notin> set ms))"
proof -
  have le: "LevelInfo \<le> LevelWarn"
    by (simp add: level_defs)
  have nd: "\<not> dangling [AnyString ''k'', AnyInt 1]"
    by simp
  from trace_id_injection
    [where m = LevelInfo and level = LevelWarn and e = example_env and wr = "Writer 1"
       and s = "''SALES''" and fn = example_traceIDFn and events = example_events
       and ctx = "()" and caller = 3 and msg = "''hello''"
       and args = "[AnyString ''k'', AnyInt 1]", OF le]
    le nd
  show ?thesis by (simp add: example_traceIDFn_def)
qed

text \<open>
  C5.  Whatever record the handler of a logger made by \<^verbatim>\<open>New\<close> or \<^verbatim>\<open>NewWithEvents\<close>
  is given, it writes one line, and the line has the member \<^verbatim>\<open>service\<close> with the
  service name given at construction and the member \<^verbatim>\<open>file\<close> with the base name of
  the file of the record's program counter, a colon and the line number; no member
  of the line is a source position under the key \<^verbatim>\<open>source\<close>.  Every line a method
  of the logger writes is written by this handler.
\<close>

theorem service_and_file:
  fixes ctx :: 'c and log :: "('c, 'f) Logger"
  assumes "log = New wr m s tf \<or> log = NewWithEvents wr m s tf events"
  shows "(\<exists>ms. written (Handle e (handler log) ctx r) = [ms]
          \<and> ([''service''], AnyString s) \<in> set ms
          \<and> ([''file''], AnyString (Base (File (runtime_Frame e (rPC r))) @ '':''
                                     @ showInt (Line (runtime_Frame e (rPC r))))) \<in> set ms
          \<and> (\<forall>src. ([''source''], AnySource src) \<notin> set ms))
       \<and> (m \<le> level \<longrightarrow>
            (\<exists>ms. written (Logger_write e log ctx level caller msg args) = [ms]
              \<and> ([''service''], AnyString s) \<in> set ms
              \<and> ([''file''],
                   AnyString (Base (File (runtime_Frame e (runtime_Callers e caller))) @ '':''
                              @ showInt (Line (runtime_Frame e (runtime_Callers e caller)))))
                  \<in> set ms
              \<and> (\<forall>src. ([''source''], AnySource src) \<notin> set ms)))"
proof (intro conjI impI)
  obtain evs where log: "log = new wr m s tf evs"
    using assms by (auto simp: New_def NewWithEvents_def)
  from Handle_new [of e wr m s tf evs ctx r]
  obtain hooks where
    1: "Handle e (handler (new wr m s tf evs)) ctx r
       = hooks @ [WriteLine wr (builtIns e (new_opts m) r @ [([''service''], AnyString s)]
                                 @ appendAttrs (new_opts m) [] (rAttrs r))]"
    and 3: "\<forall>ev \<in> set hooks. \<exists>fn. ev = CallEventFn fn ctx (toRecord r) \<and> registered evs (rLevel r) fn"
    by blast
  from 3 have "written hooks = []"
    by (intro written_hooks) blast
  then have "written (Handle e (handler log) ctx r)
      = [builtIns e (new_opts m) r @ [([''service''], AnyString s)]
                                 @ appendAttrs (new_opts m) [] (rAttrs r)]"
    unfolding log 1 by (simp add: written_append)
  then show "\<exists>ms. written (Handle e (handler log) ctx r) = [ms]
          \<and> ([''service''], AnyString s) \<in> set ms
          \<and> ([''file''], AnyString (Base (File (runtime_Frame e (rPC r))) @ '':''
                                     @ showInt (Line (runtime_Frame e (rPC r))))) \<in> set ms
          \<and> (\<forall>src. ([''source''], AnySource src) \<notin> set ms)"
    by (simp add: builtIns_new appendAttrs_new_source)
next
  assume le: "m \<le> level"
  obtain evs where log: "log = new wr m s tf evs"
    using assms by (auto simp: New_def NewWithEvents_def)
  show "\<exists>ms. written (Logger_write e log ctx level caller msg args) = [ms]
              \<and> ([''service''], AnyString s) \<in> set ms
              \<and> ([''file''],
                   AnyString (Base (File (runtime_Frame e (runtime_Callers e caller))) @ '':''
                              @ showInt (Line (runtime_Frame e (runtime_Callers e caller)))))
                  \<in> set ms
              \<and> (\<forall>src. ([''source''], AnySource src) \<notin> set ms)"
    unfolding log written_Logger_write_new [OF le]
    by (simp add: appendAttrs_new_source)
qed

theorem service_and_file_witness:
  "(\<exists>ms. written (Handle example_env
             (handler (NewWithEvents (Writer 1) LevelInfo ''SALES'' (Some example_traceIDFn)
                         example_events :: (unit, nat) Logger))
             () (NewRecord 17 LevelError ''boom'' 100)) = [ms]
        \<and> ([''service''], AnyString ''SALES'') \<in> set ms
        \<and> ([''file''], AnyString ''main.go:39'') \<in> set ms
        \<and> (\<forall>src. ([''source''], AnySource src) \<notin> set ms))
   \<and> LevelInfo \<le> LevelError
   \<and> (\<exists>ms. written (Logger_write example_env
             (NewWithEvents (Writer 1) LevelInfo ''SALES'' (Some example_traceIDFn) example_events)
             () LevelError 3 ''boom'' [AnyString ''k'', AnyInt 1]) = [ms]
        \<and> ([''service''], AnyString ''SALES'') \<in> set ms
        \<and> ([''file''], AnyString ''main.go:39'') \<in> set ms
        \<and> (\<forall>src. ([''source''], AnySource src) \<notin> set ms))"
  using service_and_file
    [where log = "NewWithEvents (Writer 1) LevelInfo ''SALES'' (Some example_traceIDFn) example_events"
       and wr = "Writer 1" and m = LevelInfo and s = "''SALES''" and tf = "Some example_traceIDFn"
       and events = example_events and e = example_env and ctx = "()"
       and r = "NewRecord 17 LevelError ''boom'' 100" and level = LevelError and caller = 3
       and msg = "''boom''" and args = "[AnyString ''k'', AnyInt 1]"]
  by (simp add: example_env_def NewRecord_def Base_def showInt_def level_defs)

lemma allocate_nth:
  "snd (allocate hp x) ! length hp = x"
  "i < length hp \<Longrightarrow> snd (allocate hp x) ! i = hp ! i"
  by (simp_all add: allocate_def nth_append)

lemma written_JSON_WithGroup:
  "written (Handle e (JSON (JSON_WithGroup j name)) ctx r) =
     [builtIns e (jsonOpts j) r @ jsonAttrs j
      @ appendAttrs (jsonOpts j) (jsonGroups j @ [name]) (rAttrs r)]"
  by (simp add: JSON_Handle_def JSON_WithGroup_def)

lemma written_JSON_WithAttrs:
  "written (Handle e (JSON (JSON_WithAttrs j attrs)) ctx r) =
     [builtIns e (jsonOpts j) r @ jsonAttrs j
      @ appendAttrs (jsonOpts j) (jsonGroups j) attrs
      @ appendAttrs (jsonOpts j) (jsonGroups j) (rAttrs r)]"
  by (simp add: JSON_Handle_def JSON_WithAttrs_def appendAttrs_def)

text \<open>
  C8, as the claim has it, says that the new pipeline shares the table of the old
  one by reference.  The field \<^verbatim>\<open>events\<close> holds an \<^verbatim>\<open>Events\<close> struct, not a pointer to
  one, and the composite literal assigns it by value.  The call below starts from a
  heap with one struct and ends with two, each with a
  table of its own: the table of struct 0 was copied into struct 1.  The tables are
  equal and they are not shared, since storing another table in struct 0 afterwards
  leaves the table of struct 1 as it was.
\<close>

theorem scopes_copy_counterexample:
  "logHandler_WithAttrs example_heap 0 [(''k'', AnyInt 1)]
     = Some (1, [\<lparr> struct_handler = JSON example_sink, struct_events = example_events \<rparr>,
                 \<lparr> struct_handler = JSON (JSON_WithAttrs example_sink [(''k'', AnyInt 1)]),
                   struct_events = example_events \<rparr>])
   \<and> map struct_events
        ([\<lparr> struct_handler = JSON example_sink, struct_events = example_events \<rparr>,
          \<lparr> struct_handler = JSON (JSON_WithAttrs example_sink [(''k'', AnyInt 1)]),
            struct_events = example_events \<rparr>]
         [0 := \<lparr> struct_handler = JSON example_sink, struct_events = no_events \<rparr>])
     = [no_events, example_events]
   \<and> example_events \<noteq> no_events"
  by (simp add: logHandler_WithAttrs_def allocate_def example_heap_def example_events_def
      no_events_def)

text \<open>
  C8, as the code has it.  Through a pointer to a struct, \<^verbatim>\<open>WithAttrs\<close> and
  \<^verbatim>\<open>WithGroup\<close> allocate a new struct and leave every struct there was as it is, for
  every list of attributes and every group name.  The table of the new struct is a
  copy of the table of the old one: equal to it, and untouched by a later store into
  the old struct.  The wrapped handler of the new struct is the old one re-scoped.
  So the old and the new pipeline call the same callbacks for every record and
  differ only in what the wrapped handler does: around a JSON handler the line of
  the new pipeline has the added attributes, or has the record's attributes inside
  the new group.
\<close>

theorem scopes_copy_events:
  fixes hp :: "'f heap" and ctx :: 'c
  assumes "h < length hp"
  shows
  "(\<exists>q hp'. logHandler_WithAttrs hp h attrs = Some (q, hp')
       \<and> q = length hp \<and> length hp' = Suc (length hp)
       \<and> (\<forall>i < length hp. hp' ! i = hp ! i)
       \<and> struct_events (hp' ! q) = struct_events (hp ! h)
       \<and> (\<forall>ev. struct_events (hp'[h := (hp' ! h)\<lparr> struct_events := ev \<rparr>] ! q)
                = struct_events (hp ! h))
       \<and> struct_handler (hp' ! q) = WithAttrs (struct_handler (hp ! h)) attrs
       \<and> pipeline hp' q = WithAttrs (pipeline hp h) attrs)
   \<and> (\<exists>q hp'. logHandler_WithGroup hp h name = Some (q, hp')
       \<and> q = length hp \<and> length hp' = Suc (length hp)
       \<and> (\<forall>i < length hp. hp' ! i = hp ! i)
       \<and> struct_events (hp' ! q) = struct_events (hp ! h)
       \<and> (\<forall>ev. struct_events (hp'[h := (hp' ! h)\<lparr> struct_events := ev \<rparr>] ! q)
                = struct_events (hp ! h))
       \<and> struct_handler (hp' ! q) = WithGroup (struct_handler (hp ! h)) name
       \<and> pipeline hp' q = WithGroup (pipeline hp h) name)
   \<and> (\<exists>hooks. Handle e (pipeline hp h) ctx r
                 = hooks @ Handle e (struct_handler (hp ! h)) ctx r
       \<and> Handle e (WithAttrs (pipeline hp h) attrs) ctx r
                 = hooks @ Handle e (WithAttrs (struct_handler (hp ! h)) attrs) ctx r
       \<and> Handle e (WithGroup (pipeline hp h) name) ctx r
                 = hooks @ Handle e (WithGroup (struct_handler (hp ! h)) name) ctx r
       \<and> written hooks = [])
   \<and> (\<forall>j. struct_handler (hp ! h) = JSON j \<longrightarrow>
         written (Handle e (WithAttrs (pipeline hp h) attrs) ctx r)
           = [builtIns e (jsonOpts j) r @ jsonAttrs j
              @ appendAttrs (jsonOpts j) (jsonGroups j) attrs
              @ appendAttrs (jsonOpts j) (jsonGroups j) (rAttrs r)]
       \<and> written (Handle e (WithGroup (pipeline hp h) name) ctx r)
           = [builtIns e (jsonOpts j) r @ jsonAttrs j
              @ appendAttrs (jsonOpts j) (jsonGroups j @ [name]) (rAttrs r)])"
proof (intro conjI)
  show "\<exists>q hp'. logHandler_WithAttrs hp h attrs = Some (q, hp')
       \<and> q = length hp \<and> length hp' = Suc (length hp)
       \<and> (\<forall>i < length hp. hp' ! i = hp ! i)
       \<and> struct_events (hp' ! q) = struct_events (hp ! h)
       \<and> (\<forall>ev. struct_events (hp'[h := (hp' ! h)\<lparr> struct_events := ev \<rparr>] ! q)
                = struct_events (hp ! h))
       \<and> struct_handler (hp' ! q) = WithAttrs (struct_handler (hp ! h)) attrs
       \<and> pipeline hp' q = WithAttrs (pipeline hp h) attrs"
    using assms
    by (simp add: logHandler_WithAttrs_def allocate_def nth_append pipeline_def)
next
  show "\<exists>q hp'. logHandler_WithGroup hp h name = Some (q, hp')
       \<and> q = length hp \<and> length hp' = Suc (length hp)
       \<and> (\<forall>i < length hp. hp' ! i = hp ! i)
       \<and> struct_events (hp' ! q) = struct_events (hp ! h)
       \<and> (\<forall>ev. struct_events (hp'[h := (hp' ! h)\<lparr> struct_events := ev \<rparr>] ! q)
                = struct_events (hp ! h))
       \<and> struct_handler (hp' ! q) = WithGroup (struct_handler (hp ! h)) name
       \<and> pipeline hp' q = WithGroup (pipeline hp h) name"
    using assms
    by (simp add: logHandler_WithGroup_def allocate_def nth_append pipeline_def)
next
  from Handle_logHandler [of e "struct_handler (hp ! h)" "struct_events (hp ! h)" ctx r]
  obtain hooks where
    1: "Handle e (logHandler (struct_handler (hp ! h)) (struct_events (hp ! h))) ctx r
          = hooks @ Handle e (struct_handler (hp ! h)) ctx r"
    and 3: "\<forall>ev \<in> set hooks. \<exists>fn. ev = CallEventFn fn ctx (toRecord r)
              \<and> registered (struct_events (hp ! h)) (rLevel r) fn"
    by blast
  from 3 have w: "written hooks = []"
    by (intro written_hooks) blast
  from 1 have "hooks = (if rLevel r = LevelDebug then
        (case Debug (struct_events (hp ! h)) of None \<Rightarrow> []
         | Some fn \<Rightarrow> [CallEventFn fn ctx (toRecord r)])
      else if rLevel r = LevelError then
        (case Error (struct_events (hp ! h)) of None \<Rightarrow> []
         | Some fn \<Rightarrow> [CallEventFn fn ctx (toRecord r)])
      else if rLevel r = LevelWarn then
        (case Warn (struct_events (hp ! h)) of None \<Rightarrow> []
         | Some fn \<Rightarrow> [CallEventFn fn ctx (toRecord r)])
      else if rLevel r = LevelInfo then
        (case Info (struct_events (hp ! h)) of None \<Rightarrow> []
         | Some fn \<Rightarrow> [CallEventFn fn ctx (toRecord r)])
      else [])"
    by simp
  then have "Handle e (pipeline hp h) ctx r
                 = hooks @ Handle e (struct_handler (hp ! h)) ctx r
       \<and> Handle e (WithAttrs (pipeline hp h) attrs) ctx r
                 = hooks @ Handle e (WithAttrs (struct_handler (hp ! h)) attrs) ctx r
       \<and> Handle e (WithGroup (pipeline hp h) name) ctx r
                 = hooks @ Handle e (WithGroup (struct_handler (hp ! h)) name) ctx r"
    by (simp add: pipeline_def)
  with w show "\<exists>hooks. Handle e (pipeline hp h) ctx r
                 = hooks @ Handle e (struct_handler (hp ! h)) ctx r
       \<and> Handle e (WithAttrs (pipeline hp h) attrs) ctx r
                 = hooks @ Handle e (WithAttrs (struct_handler (hp ! h)) attrs) ctx r
       \<and> Handle e (WithGroup (pipeline hp h) name) ctx r
                 = hooks @ Handle e (WithGroup (struct_handler (hp ! h)) name) ctx r
       \<and> written hooks = []"
    by blast
next
  show "\<forall>j. struct_handler (hp ! h) = JSON j \<longrightarrow>
         written (Handle e (WithAttrs (pipeline hp h) attrs) ctx r)
           = [builtIns e (jsonOpts j) r @ jsonAttrs j
              @ appendAttrs (jsonOpts j) (jsonGroups j) attrs
              @ appendAttrs (jsonOpts j) (jsonGroups j) (rAttrs r)]
       \<and> written (Handle e (WithGroup (pipeline hp h) name) ctx r)
           = [builtIns e (jsonOpts j) r @ jsonAttrs j
              @ appendAttrs (jsonOpts j) (jsonGroups j @ [name]) (rAttrs r)]"
  proof (intro allI impI)
    fix j
    assume j: "struct_handler (hp ! h) = JSON j"
    from Handle_logHandler [of e "JSON (JSON_WithAttrs j attrs)" "struct_events (hp ! h)" ctx r]
    obtain hooks where
      1: "Handle e (logHandler (JSON (JSON_WithAttrs j attrs)) (struct_events (hp ! h))) ctx r
            = hooks @ Handle e (JSON (JSON_WithAttrs j attrs)) ctx r"
      and 3: "\<forall>ev \<in> set hooks. \<exists>fn. ev = CallEventFn fn ctx (toRecord r)
                \<and> registered (struct_events (hp ! h)) (rLevel r) fn"
      by blast
    from 3 have w: "written hooks = []"
      by (intro written_hooks) blast
    have a: "written (Handle e (WithAttrs (pipeline hp h) attrs) ctx r)
           = [builtIns e (jsonOpts j) r @ jsonAttrs j
              @ appendAttrs (jsonOpts j) (jsonGroups j) attrs
              @ appendAttrs (jsonOpts j) (jsonGroups j) (rAttrs r)]"
      unfolding pipeline_def j WithAttrs.simps 1 written_append w written_JSON_WithAttrs
      by simp
    from Handle_logHandler [of e "JSON (JSON_WithGroup j name)" "struct_events (hp ! h)" ctx r]
    obtain hooks' where
      1: "Handle e (logHandler (JSON (JSON_WithGroup j name)) (struct_events (hp ! h))) ctx r
            = hooks' @ Handle e (JSON (JSON_WithGroup j name)) ctx r"
      and 3: "\<forall>ev \<in> set hooks'. \<exists>fn. ev = CallEventFn fn ctx (toRecord r)
                \<and> registered (struct_events (hp ! h)) (rLevel r) fn"
      by blast
    from 3 have w: "written hooks' = []"
      by (intro written_hooks) blast
    have b: "written (Handle e (WithGroup (pipeline hp h) name) ctx r)
           = [builtIns e (jsonOpts j) r @ jsonAttrs j
              @ appendAttrs (jsonOpts j) (jsonGroups j @ [name]) (rAttrs r)]"
      unfolding pipeline_def j WithGroup.simps 1 written_append w written_JSON_WithGroup
      by simp
    from a b show "written (Handle e (WithAttrs (pipeline hp h) attrs) ctx r)
           = [builtIns e (jsonOpts j) r @ jsonAttrs j
              @ appendAttrs (jsonOpts j) (jsonGroups j) attrs
              @ appendAttrs (jsonOpts j) (jsonGroups j) (rAttrs r)]
       \<and> written (Handle e (WithGroup (pipeline hp h) name) ctx r)
           = [builtIns e (jsonOpts j) r @ jsonAttrs j
              @ appendAttrs (jsonOpts j) (jsonGroups j @ [name]) (rAttrs r)]"
      by blast
  qed
qed

theorem scopes_copy_events_witness:
  "(0::nat) < length example_heap
   \<and> (\<exists>q hp'. logHandler_WithGroup example_heap 0 ''g'' = Some (q, hp')
       \<and> q = 1 \<and> length hp' = 2
       \<and> hp' ! 0 = example_heap ! 0
       \<and> struct_events (hp' ! q) = example_events
       \<and> struct_events (hp'[0 := (hp' ! 0)\<lparr> struct_events := no_events \<rparr>] ! q) = example_events
       \<and> pipeline hp' q = WithGroup (pipeline example_heap 0) ''g'')
   \<and> written (Handle example_env (WithGroup (pipeline example_heap 0) ''g'') ()
        (Add (NewRecord 17 LevelWarn ''hello'' 100) [AnyString ''k'', AnyInt 1]))
      = [[([''time''], AnyTime 17), ([''level''], AnyLevel 4),
          ([''file''], AnyString ''main.go:39''), ([''msg''], AnyString ''hello''),
          ([''g'', ''k''], AnyInt 1)]]
   \<and> written (Handle example_env (WithAttrs (pipeline example_heap 0) [(''a'', AnyBool True)]) ()
        (Add (NewRecord 17 LevelWarn ''hello'' 100) [AnyString ''k'', AnyInt 1]))
      = [[([''time''], AnyTime 17), ([''level''], AnyLevel 4),
          ([''file''], AnyString ''main.go:39''), ([''msg''], AnyString ''hello''),
          ([''a''], AnyBool True), ([''k''], AnyInt 1)]]"
proof -
  have len: "(0::nat) < length example_heap"
    by (simp add: example_heap_def)
  have j: "struct_handler (example_heap ! 0) = JSON example_sink"
    by (simp add: example_heap_def)
  have ev: "struct_events (example_heap ! 0) = example_events"
    by (simp add: example_heap_def)
  have l: "length example_heap = 1"
    by (simp add: example_heap_def)
  note inst = scopes_copy_events [OF len, where name = "''g''" and attrs = "[(''a'', AnyBool True)]"
      and e = example_env and ctx = "()"
      and r = "Add (NewRecord 17 LevelWarn ''hello'' 100) [AnyString ''k'', AnyInt 1]"]
  from inst [THEN conjunct2, THEN conjunct1]
  obtain q hp' where
    g: "logHandler_WithGroup example_heap 0 ''g'' = Some (q, hp')"
    and q: "q = length example_heap"
    and n: "length hp' = Suc (length example_heap)"
    and old: "\<forall>i < length example_heap. hp' ! i = example_heap ! i"
    and copy: "struct_events (hp' ! q) = struct_events (example_heap ! 0)"
    and apart: "\<forall>ev. struct_events (hp'[0 := (hp' ! 0)\<lparr> struct_events := ev \<rparr>] ! q)
                = struct_events (example_heap ! 0)"
    and p: "pipeline hp' q = WithGroup (pipeline example_heap 0) ''g''"
    by blast
  from old len have old0: "hp' ! 0 = example_heap ! 0"
    by blast
  from apart have apart0:
    "struct_events (hp'[0 := (hp' ! 0)\<lparr> struct_events := no_events \<rparr>] ! q)
                = struct_events (example_heap ! 0)"
    by blast
  have heap: "\<exists>q hp'. logHandler_WithGroup example_heap 0 ''g'' = Some (q, hp')
       \<and> q = 1 \<and> length hp' = 2
       \<and> hp' ! 0 = example_heap ! 0
       \<and> struct_events (hp' ! q) = example_events
       \<and> struct_events (hp'[0 := (hp' ! 0)\<lparr> struct_events := no_events \<rparr>] ! q) = example_events
       \<and> pipeline hp' q = WithGroup (pipeline example_heap 0) ''g''"
    using g q n old0 copy apart0 p unfolding ev l by auto
  from inst [THEN conjunct2, THEN conjunct2, THEN conjunct2, rule_format, OF j]
  have lines: "written (Handle example_env
          (WithAttrs (pipeline example_heap 0) [(''a'', AnyBool True)]) ()
          (Add (NewRecord 17 LevelWarn ''hello'' 100) [AnyString ''k'', AnyInt 1]))
      = [builtIns example_env (jsonOpts example_sink)
           (Add (NewRecord 17 LevelWarn ''hello'' 100) [AnyString ''k'', AnyInt 1])
         @ jsonAttrs example_sink
         @ appendAttrs (jsonOpts example_sink) (jsonGroups example_sink) [(''a'', AnyBool True)]
         @ appendAttrs (jsonOpts example_sink) (jsonGroups example_sink)
             (rAttrs (Add (NewRecord 17 LevelWarn ''hello'' 100) [AnyString ''k'', AnyInt 1]))]
    \<and> written (Handle example_env (WithGroup (pipeline example_heap 0) ''g'') ()
          (Add (NewRecord 17 LevelWarn ''hello'' 100) [AnyString ''k'', AnyInt 1]))
      = [builtIns example_env (jsonOpts example_sink)
           (Add (NewRecord 17 LevelWarn ''hello'' 100) [AnyString ''k'', AnyInt 1])
         @ jsonAttrs example_sink
         @ appendAttrs (jsonOpts example_sink) (jsonGroups example_sink @ [''g''])
             (rAttrs (Add (NewRecord 17 LevelWarn ''hello'' 100) [AnyString ''k'', AnyInt 1]))]" .
  have opts: "jsonOpts example_sink = new_opts LevelInfo" "jsonAttrs example_sink = []"
    "jsonGroups example_sink = []"
    by (simp_all add: example_sink_def NewJSONHandler_def)
  have b: "builtIns example_env (new_opts LevelInfo)
           (Add (NewRecord 17 LevelWarn ''hello'' 100) [AnyString ''k'', AnyInt 1])
      = [([''time''], AnyTime 17), ([''level''], AnyLevel 4),
          ([''file''], AnyString ''main.go:39''), ([''msg''], AnyString ''hello'')]"
    by (simp add: builtIns_new example_env_def Base_def showInt_def level_defs)
  have a1: "appendAttrs (new_opts LevelInfo) [] [(''a'', AnyBool True)] = [([''a''], AnyBool True)]"
    and a2: "appendAttrs (new_opts LevelInfo) [] [(''k'', AnyInt 1)] = [([''k''], AnyInt 1)]"
    and a3: "appendAttrs (new_opts LevelInfo) [''g''] [(''k'', AnyInt 1)] = [([''g'', ''k''], AnyInt 1)]"
    by (simp_all add: appendAttrs_def appendAttr_def new_opts_def new_f_def SourceKey_def
        isEmptyAttr_def)
  from lines have lines': "written (Handle example_env
          (WithAttrs (pipeline example_heap 0) [(''a'', AnyBool True)]) ()
          (Add (NewRecord 17 LevelWarn ''hello'' 100) [AnyString ''k'', AnyInt 1]))
      = [[([''time''], AnyTime 17), ([''level''], AnyLevel 4),
          ([''file''], AnyString ''main.go:39''), ([''msg''], AnyString ''hello''),
          ([''a''], AnyBool True), ([''k''], AnyInt 1)]]
    \<and> written (Handle example_env (WithGroup (pipeline example_heap 0) ''g'') ()
          (Add (NewRecord 17 LevelWarn ''hello'' 100) [AnyString ''k'', AnyInt 1]))
      = [[([''time''], AnyTime 17), ([''level''], AnyLevel 4),
          ([''file''], AnyString ''main.go:39''), ([''msg''], AnyString ''hello''),
          ([''g'', ''k''], AnyInt 1)]]"
    unfolding opts b by (simp add: a1 a2 a3 del: Handle.simps)
  from len heap lines' show ?thesis
    by blast
qed







section \<open>Lemmas about the log filter\<close>

lemma ToLower_Nil [simp]: "ToLower l [] = []"
  by (simp add: ToLower_def)

lemma ToLower_ascii_Nil_iff:
  "list_all (\<lambda>c. (of_char c :: nat) < 128) str \<Longrightarrow> ToLower l str = [] \<longleftrightarrow> str = []"
  by (simp add: ToLower_def)

lemma scanLoop_append:
  "snd (scanLoop l svc pre) = None \<Longrightarrow>
   scanLoop l svc (pre @ rest)
     = (fst (scanLoop l svc pre) @ fst (scanLoop l svc rest), snd (scanLoop l svc rest))"
  by (induction pre) (auto split: sum.splits)

declare Scan.simps [simp del]

lemma Scan_Nil: "Scan [] = ([], None)"
  by (simp add: Scan.simps)

lemma takeWhile_line:
  "CHR 0x0A \<notin> set s \<Longrightarrow> takeWhile (\<lambda>c. c \<noteq> CHR 0x0A) (s @ CHR 0x0A # rest) = s"
  by (induction s) auto

lemma takeWhile_no_newline:
  "CHR 0x0A \<notin> set s \<Longrightarrow> takeWhile (\<lambda>c. c \<noteq> CHR 0x0A) s = s"
  by (induction s) auto

lemma Scan_line:
  assumes "fits s"
  shows "Scan (s @ CHR 0x0A # rest) = (dropCR s # fst (Scan rest), snd (Scan rest))"
proof -
  from assms have t: "takeWhile (\<lambda>c. c \<noteq> CHR 0x0A) (s @ CHR 0x0A # rest) = s"
    by (simp add: fits_def takeWhile_line)
  from assms have n: "\<not> MaxScanTokenSize \<le> length s"
    by (simp add: fits_def)
  show ?thesis
    by (subst Scan.simps) (simp add: t n Let_def)
qed

lemma Scan_last:
  assumes "fits s" and "s \<noteq> []"
  shows "Scan s = ([dropCR s], None)"
proof -
  from assms have t: "takeWhile (\<lambda>c. c \<noteq> CHR 0x0A) s = s"
    by (simp add: fits_def takeWhile_no_newline)
  from assms have n: "\<not> MaxScanTokenSize \<le> length s"
    by (simp add: fits_def)
  show ?thesis
    by (subst Scan.simps) (simp add: t n Let_def assms(2) Scan_Nil)
qed

lemma Scan_long:
  assumes "CHR 0x0A \<notin> set t" and "MaxScanTokenSize \<le> length t"
  shows "Scan (t @ rest) = ([], Some ErrTooLong)"
proof -
  have "takeWhile (\<lambda>c. c \<noteq> CHR 0x0A) (t @ rest) = t @ takeWhile (\<lambda>c. c \<noteq> CHR 0x0A) rest"
    using assms(1) by (intro takeWhile_append2) auto
  then have n: "MaxScanTokenSize \<le> length (takeWhile (\<lambda>c. c \<noteq> CHR 0x0A) (t @ rest))"
    using assms(2) by simp
  from assms(2) have "t \<noteq> []"
    by (auto simp: MaxScanTokenSize_def)
  then show ?thesis
    by (subst Scan.simps) (simp add: n Let_def)
qed

lemma Scan_unlines:
  "\<forall>s \<in> set ls. fits s \<Longrightarrow>
   Scan (unlines ls @ rest) = (map dropCR ls @ fst (Scan rest), snd (Scan rest))"
  by (induction ls) (simp_all add: unlines_def Scan_line)

lemma main_Nil: "logfmt_main l flag [] = ([], Returned None)"
  by (simp add: logfmt_main_def Scan_Nil)

lemma main_line:
  assumes "fits s"
  shows "logfmt_main l flag (s @ CHR 0x0A # rest) =
     (case scanLine l (ToLower l flag) (dropCR s) of
        Inl err \<Rightarrow> ([], Panicked err)
      | Inr out \<Rightarrow> (out @ fst (logfmt_main l flag rest), snd (logfmt_main l flag rest)))"
  by (simp add: logfmt_main_def Scan_line [OF assms] Let_def split: sum.splits option.splits)

lemma main_last:
  assumes "fits s" and "s \<noteq> []"
  shows "logfmt_main l flag s =
     (case scanLine l (ToLower l flag) (dropCR s) of
        Inl err \<Rightarrow> ([], Panicked err)
      | Inr out \<Rightarrow> (out, Returned None))"
  by (simp add: logfmt_main_def Scan_last [OF assms] Let_def split: sum.splits)

lemma main_long:
  assumes "CHR 0x0A \<notin> set t" and "MaxScanTokenSize \<le> length t"
  shows "logfmt_main l flag (t @ rest) = ([], Returned (Some ErrTooLong))"
  by (simp add: logfmt_main_def Scan_long [OF assms] Let_def)

lemma main_after_lines:
  assumes "\<forall>p \<in> set pre. fits p"
    and "snd (logfmt_main l flag (unlines pre)) = Returned None"
  shows "logfmt_main l flag (unlines pre @ rest)
     = (fst (logfmt_main l flag (unlines pre)) @ fst (logfmt_main l flag rest),
        snd (logfmt_main l flag rest))"
proof -
  from Scan_unlines [OF assms(1), of "[]"]
  have s0: "Scan (unlines pre) = (map dropCR pre, None)"
    by (simp add: Scan_Nil)
  from assms(2) have ok: "snd (scanLoop l (ToLower l flag) (map dropCR pre)) = None"
    by (simp add: logfmt_main_def s0 Let_def split: option.splits)
  show ?thesis
    by (simp add: logfmt_main_def Scan_unlines [OF assms(1)] s0 Let_def
        scanLoop_append [OF ok] split: option.splits)
qed

lemma extras_filter:
  "extras l m = concat (map (\<lambda>kv. fst kv @ ''['' @ Sprint l Verb_v (snd kv) @ '']: '')
     (filter (\<lambda>kv. fst kv \<notin> {''service'', ''time'', ''file'', ''level'', ''trace_id'', ''msg''}) m))"
  by (induction l m rule: extras.induct) auto

lemma distinct_singleton:
  assumes d: "distinct xs" and s: "set xs = {a}"
  shows "xs = [a]"
proof (cases xs)
  case Nil
  with s show ?thesis by simp
next
  case outer: (Cons x ys)
  from outer s have xa: "x = a" by auto
  have "ys = []"
  proof (cases ys)
    case Nil
    then show ?thesis .
  next
    case (Cons y zs)
    with outer s have "y = a" by auto
    with Cons outer xa d show ?thesis by simp
  qed
  with outer xa show ?thesis by simp
qed

lemma format_roundtrip:
  assumes d: "distinct (map fst m)" and s: "set m = set roundtrip_fields"
  shows "format l m = ''SALES: t1: f.go:10: INFO: abc: hello: extra[x]''"
proof -
  have mo: "map_of m = map_of roundtrip_fields"
    using d s by (subst map_of_inject_set) (simp_all add: roundtrip_fields_def)
  have "distinct m" using d by (rule distinct_map [THEN iffD1, THEN conjunct1])
  then have dm: "distinct (filter (\<lambda>kv. fst kv \<notin> {''service'', ''time'', ''file'', ''level'', ''trace_id'', ''msg''}) m)"
    by simp
  have "set (filter (\<lambda>kv. fst kv \<notin> {''service'', ''time'', ''file'', ''level'', ''trace_id'', ''msg''}) m) = {(''extra'', JString ''x'')}"
    unfolding set_filter s by (auto simp: roundtrip_fields_def)
  with dm have f: "filter (\<lambda>kv. fst kv \<notin> {''service'', ''time'', ''file'', ''level'', ''trace_id'', ''msg''}) m = [(''extra'', JString ''x'')]"
    by (rule distinct_singleton)
  have ex: "extras l m = ''extra[x]: ''"
    unfolding extras_filter f by (simp add: Sprint_def)
  show ?thesis
    by (simp add: format_def index_def mo ex roundtrip_fields_def Sprint_def)
qed


lemma format_notrace:
  assumes d: "distinct (map fst m)" and s: "set m = set notrace_fields"
  shows "format l m = ''SALES: t1: f.go:10: INFO: 00000000-0000-0000-0000-000000000000: hello: extra[x]''"
proof -
  have mo: "map_of m = map_of notrace_fields"
    using d s by (subst map_of_inject_set) (simp_all add: notrace_fields_def)
  have "distinct m" using d by (rule distinct_map [THEN iffD1, THEN conjunct1])
  then have dm: "distinct (filter (\<lambda>kv. fst kv \<notin> {''service'', ''time'', ''file'', ''level'', ''trace_id'', ''msg''}) m)"
    by simp
  have "set (filter (\<lambda>kv. fst kv \<notin> {''service'', ''time'', ''file'', ''level'', ''trace_id'', ''msg''}) m) = {(''extra'', JString ''x'')}"
    unfolding set_filter s by (auto simp: notrace_fields_def)
  with dm have f: "filter (\<lambda>kv. fst kv \<notin> {''service'', ''time'', ''file'', ''level'', ''trace_id'', ''msg''}) m = [(''extra'', JString ''x'')]"
    by (rule distinct_singleton)
  have ex: "extras l m = ''extra[x]: ''"
    unfolding extras_filter f by (simp add: Sprint_def)
  show ?thesis
    by (simp add: format_def index_def mo ex notrace_fields_def Sprint_def)
qed

lemma decodeFlat_roundtrip_line: "decodeFlat roundtrip_line = Some roundtrip_fields"
  by (simp add: decodeFlat_def roundtrip_line_def roundtrip_fields_def
      isSpace_def plainChar_def put_def)

lemma decodeFlat_notrace_line: "decodeFlat notrace_line = Some notrace_fields"
  by (simp add: decodeFlat_def notrace_line_def notrace_fields_def
      isSpace_def plainChar_def put_def)

lemma decodeFlat_noservice_line: "decodeFlat noservice_line = Some [(''msg'', JString ''hello'')]"
  by (simp add: decodeFlat_def noservice_line_def isSpace_def plainChar_def put_def)

lemma decodeFlat_not_json: "decodeFlat ''not json'' = None"
  by (simp add: decodeFlat_def isSpace_def)

lemma foldl_dstep_fail: "foldl dstep (DFail, k, b, m) s = (DFail, k, b, m)"
  by (induction s) simp_all

lemma foldl_dstep_value:
  "plainChar c \<Longrightarrow>
   foldl dstep (DInValue, k, b, m) (replicate n c) = (DInValue, k, b @ replicate n c, m)"
  by (induction n arbitrary: b) (auto simp: plainChar_def replicate_app_Cons_same)

lemma decodeFlat_garbage:
  assumes "\<not> isSpace c" and "c \<noteq> CHR ''{''"
  shows "decodeFlat (c # s) = None"
  using assms by (simp add: decodeFlat_def foldl_dstep_fail)

lemma long_text_Cons: "long_text = CHR ''x'' # replicate 65535 (CHR ''x'')"
proof -
  have "(65536::nat) = Suc 65535"
    by simp
  then show ?thesis
    unfolding long_text_def by (simp only: replicate_Suc)
qed

lemma decodeFlat_long_text: "decodeFlat long_text = None"
  unfolding long_text_Cons by (rule decodeFlat_garbage) (simp_all add: isSpace_def)

lemma decodeFlat_long_object:
  "decodeFlat long_object = Some [(''msg'', JString (replicate 65536 (CHR ''x'')))]"
proof -
  define headpart where "headpart = ''{'' @ [CHR 0x22] @ ''msg'' @ [CHR 0x22] @ '':'' @ [CHR 0x22]"
  define tailpart where "tailpart = [CHR 0x22] @ ''}''"
  define body where "body = replicate 65536 (CHR ''x'')"
  have p: "plainChar (CHR ''x'')"
    by (simp add: plainChar_def)
  have 1: "foldl dstep (DStart, [], [], []) headpart = (DInValue, ''msg'', [], [])"
    by (simp add: headpart_def isSpace_def plainChar_def)
  have 2: "foldl dstep (DInValue, ''msg'', [], []) body = (DInValue, ''msg'', body, [])"
    unfolding body_def by (simp only: foldl_dstep_value [OF p] append_Nil)
  have 3: "foldl dstep (DInValue, ''msg'', body, []) tailpart
      = (DDone, ''msg'', [], [(''msg'', JString body)])"
    by (simp add: tailpart_def isSpace_def put_def)
  have o: "long_object = headpart @ body @ tailpart"
    by (simp add: long_object_def headpart_def tailpart_def body_def)
  have "foldl dstep (DStart, [], [], []) long_object = (DDone, ''msg'', [], [(''msg'', JString body)])"
    by (simp only: o foldl_append 1 2 3)
  then show ?thesis
    by (simp add: decodeFlat_def body_def)
qed

lemma long_text_too_long: "CHR 0x0A \<notin> set long_text \<and> MaxScanTokenSize \<le> length long_text"
  by (simp add: long_text_def MaxScanTokenSize_def)

lemma long_object_too_long:
  "CHR 0x0A \<notin> set long_object \<and> MaxScanTokenSize \<le> length long_object"
  by (simp add: long_object_def MaxScanTokenSize_def)

lemma ToLower_sales: "ToLower example_lib ''SALES'' = ''sales''"
  by code_simp

lemma fits_examples:
  "fits roundtrip_line" "fits notrace_line" "fits noservice_line" "fits ''not json''"
  "fits (''not json'' @ [CHR 0x0D])" "fits (roundtrip_line @ [CHR 0x0D])"
  "fits (notrace_line @ [CHR 0x0D])"
  by (simp_all add: fits_def MaxScanTokenSize_def roundtrip_line_def notrace_line_def
      noservice_line_def)

lemma dropCR_examples:
  "dropCR roundtrip_line = roundtrip_line" "dropCR notrace_line = notrace_line"
  "dropCR noservice_line = noservice_line" "dropCR ''not json'' = ''not json''"
  "dropCR (s @ [CHR 0x0D]) = s"
  by (simp_all add: dropCR_def roundtrip_line_def notrace_line_def noservice_line_def)

lemma scanLine_roundtrip:
  "scanLine example_lib svc roundtrip_line =
     Inr (if svc = [] \<or> svc = ''sales''
          then [''SALES: t1: f.go:10: INFO: abc: hello: extra[x]''] else [])"
proof -
  have f: "format example_lib roundtrip_fields = ''SALES: t1: f.go:10: INFO: abc: hello: extra[x]''"
    by (rule format_roundtrip) (simp_all add: roundtrip_fields_def)
  have i: "index roundtrip_fields ''service'' = JString ''SALES''"
    by (simp add: index_def roundtrip_fields_def)
  have u: "Unmarshal example_lib roundtrip_line = Some roundtrip_fields"
    by (simp add: example_lib_def decodeFlat_roundtrip_line)
  show ?thesis
    by (auto simp: scanLine_def u i f ToLower_sales)
qed

lemma scanLine_notrace:
  "scanLine example_lib svc notrace_line =
     Inr (if svc = [] \<or> svc = ''sales''
          then [''SALES: t1: f.go:10: INFO: 00000000-0000-0000-0000-000000000000: hello: extra[x]'']
          else [])"
proof -
  have f: "format example_lib notrace_fields
      = ''SALES: t1: f.go:10: INFO: 00000000-0000-0000-0000-000000000000: hello: extra[x]''"
    by (rule format_notrace) (simp_all add: notrace_fields_def)
  have i: "index notrace_fields ''service'' = JString ''SALES''"
    by (simp add: index_def notrace_fields_def)
  have u: "Unmarshal example_lib notrace_line = Some notrace_fields"
    by (simp add: example_lib_def decodeFlat_notrace_line)
  show ?thesis
    by (auto simp: scanLine_def u i f ToLower_sales)
qed

lemma nonempty_examples:
  "roundtrip_line \<noteq> []" "notrace_line \<noteq> []" "noservice_line \<noteq> []"
  by (simp_all add: roundtrip_line_def notrace_line_def noservice_line_def)

lemma main_one_line:
  assumes "fits s" and "s \<noteq> []" and "fits (s @ [CHR 0x0D])"
    and "dropCR s = s" and "scanLine l (ToLower l flag) s = Inr out"
  shows "logfmt_main l flag s = (out, Returned None)"
    and "logfmt_main l flag (s @ [CHR 0x0A]) = (out, Returned None)"
    and "logfmt_main l flag (s @ [CHR 0x0D, CHR 0x0A]) = (out, Returned None)"
proof -
  show "logfmt_main l flag s = (out, Returned None)"
    by (simp add: main_last [OF assms(1,2)] assms(4,5))
  show "logfmt_main l flag (s @ [CHR 0x0A]) = (out, Returned None)"
    by (simp add: main_line [OF assms(1)] assms(4,5) main_Nil)
  have "dropCR (s @ [CHR 0x0D]) = s"
    by (simp add: dropCR_def)
  with main_line [OF assms(3), of l flag "[]"]
  show "logfmt_main l flag (s @ [CHR 0x0D, CHR 0x0A]) = (out, Returned None)"
    by (simp add: assms(5) main_Nil)
qed

lemma main_roundtrip:
  "logfmt_main example_lib flag (roundtrip_line @ [CHR 0x0A]) =
     (if ToLower example_lib flag = [] \<or> ToLower example_lib flag = ''sales''
      then [''SALES: t1: f.go:10: INFO: abc: hello: extra[x]''] else [], Returned None)"
  by (rule main_one_line(2))
    (simp_all add: fits_examples nonempty_examples dropCR_examples scanLine_roundtrip)

lemma main_notrace:
  "logfmt_main example_lib flag (notrace_line @ [CHR 0x0A]) =
     (if ToLower example_lib flag = [] \<or> ToLower example_lib flag = ''sales''
      then [''SALES: t1: f.go:10: INFO: 00000000-0000-0000-0000-000000000000: hello: extra[x]'']
      else [], Returned None)"
  by (rule main_one_line(2))
    (simp_all add: fits_examples nonempty_examples dropCR_examples scanLine_notrace)

section \<open>The log filter: the claims\<close>

text \<open>
  C6.  Without the flag \<^verbatim>\<open>-service\<close>, the one input line of the example gives
  exactly the one output line \<^verbatim>\<open>SALES: t1: f.go:10: INFO: abc: hello: extra[x]\<close>,
  and the same line without the key \<^verbatim>\<open>trace_id\<close> gives that line with the nil
  UUID in the place of the trace id, and the program returns without an error.  This
  holds whether the line on standard input ends there, in a newline, or in a carriage
  return and a newline; for every decoder that decodes the line to the map of its
  seven (six) members, in whatever order \<^verbatim>\<open>range\<close> visits them; and for every way
  values that are not strings are printed.
\<close>

theorem roundtrip_example:
  "(Unmarshal l roundtrip_line = Some m \<and> distinct (map fst m) \<and> set m = set roundtrip_fields
      \<longrightarrow> logfmt_main l [] roundtrip_line
             = ([''SALES: t1: f.go:10: INFO: abc: hello: extra[x]''], Returned None)
         \<and> logfmt_main l [] (roundtrip_line @ [CHR 0x0A])
             = ([''SALES: t1: f.go:10: INFO: abc: hello: extra[x]''], Returned None)
         \<and> logfmt_main l [] (roundtrip_line @ [CHR 0x0D, CHR 0x0A])
             = ([''SALES: t1: f.go:10: INFO: abc: hello: extra[x]''], Returned None))
   \<and> (Unmarshal l notrace_line = Some m' \<and> distinct (map fst m') \<and> set m' = set notrace_fields
      \<longrightarrow> logfmt_main l [] notrace_line
             = ([''SALES: t1: f.go:10: INFO: 00000000-0000-0000-0000-000000000000: hello: extra[x]''],
                Returned None)
         \<and> logfmt_main l [] (notrace_line @ [CHR 0x0A])
             = ([''SALES: t1: f.go:10: INFO: 00000000-0000-0000-0000-000000000000: hello: extra[x]''],
                Returned None)
         \<and> logfmt_main l [] (notrace_line @ [CHR 0x0D, CHR 0x0A])
             = ([''SALES: t1: f.go:10: INFO: 00000000-0000-0000-0000-000000000000: hello: extra[x]''],
                Returned None))"
proof (intro conjI impI; elim conjE)
  assume a: "Unmarshal l roundtrip_line = Some m" "distinct (map fst m)"
    "set m = set roundtrip_fields"
  then have line: "scanLine l (ToLower l []) roundtrip_line
      = Inr [''SALES: t1: f.go:10: INFO: abc: hello: extra[x]'']"
    by (simp add: scanLine_def format_roundtrip)
  note one = main_one_line [OF fits_examples(1) nonempty_examples(1) fits_examples(6)
      dropCR_examples(1) line]
  show "logfmt_main l [] roundtrip_line
      = ([''SALES: t1: f.go:10: INFO: abc: hello: extra[x]''], Returned None)"
    by (rule one(1))
  show "logfmt_main l [] (roundtrip_line @ [CHR 0x0A])
      = ([''SALES: t1: f.go:10: INFO: abc: hello: extra[x]''], Returned None)"
    by (rule one(2))
  show "logfmt_main l [] (roundtrip_line @ [CHR 0x0D, CHR 0x0A])
      = ([''SALES: t1: f.go:10: INFO: abc: hello: extra[x]''], Returned None)"
    by (rule one(3))
next
  assume a: "Unmarshal l notrace_line = Some m'" "distinct (map fst m')"
    "set m' = set notrace_fields"
  then have line: "scanLine l (ToLower l []) notrace_line
      = Inr [''SALES: t1: f.go:10: INFO: 00000000-0000-0000-0000-000000000000: hello: extra[x]'']"
    by (simp add: scanLine_def format_notrace)
  note one = main_one_line [OF fits_examples(2) nonempty_examples(2) fits_examples(7)
      dropCR_examples(2) line]
  show "logfmt_main l [] notrace_line
      = ([''SALES: t1: f.go:10: INFO: 00000000-0000-0000-0000-000000000000: hello: extra[x]''],
         Returned None)"
    by (rule one(1))
  show "logfmt_main l [] (notrace_line @ [CHR 0x0A])
      = ([''SALES: t1: f.go:10: INFO: 00000000-0000-0000-0000-000000000000: hello: extra[x]''],
         Returned None)"
    by (rule one(2))
  show "logfmt_main l [] (notrace_line @ [CHR 0x0D, CHR 0x0A])
      = ([''SALES: t1: f.go:10: INFO: 00000000-0000-0000-0000-000000000000: hello: extra[x]''],
         Returned None)"
    by (rule one(3))
qed

theorem roundtrip_example_witness:
  "Unmarshal example_lib roundtrip_line = Some roundtrip_fields
   \<and> distinct (map fst roundtrip_fields)
   \<and> logfmt_main example_lib [] roundtrip_line
       = ([''SALES: t1: f.go:10: INFO: abc: hello: extra[x]''], Returned None)
   \<and> logfmt_main example_lib [] (roundtrip_line @ [CHR 0x0A])
       = ([''SALES: t1: f.go:10: INFO: abc: hello: extra[x]''], Returned None)
   \<and> logfmt_main example_lib [] (roundtrip_line @ [CHR 0x0D, CHR 0x0A])
       = ([''SALES: t1: f.go:10: INFO: abc: hello: extra[x]''], Returned None)
   \<and> Unmarshal example_lib notrace_line = Some notrace_fields
   \<and> distinct (map fst notrace_fields)
   \<and> logfmt_main example_lib [] notrace_line
       = ([''SALES: t1: f.go:10: INFO: 00000000-0000-0000-0000-000000000000: hello: extra[x]''],
          Returned None)
   \<and> logfmt_main example_lib [] (notrace_line @ [CHR 0x0A])
       = ([''SALES: t1: f.go:10: INFO: 00000000-0000-0000-0000-000000000000: hello: extra[x]''],
          Returned None)
   \<and> logfmt_main example_lib [] (notrace_line @ [CHR 0x0D, CHR 0x0A])
       = ([''SALES: t1: f.go:10: INFO: 00000000-0000-0000-0000-000000000000: hello: extra[x]''],
          Returned None)"
proof -
  have 1: "Unmarshal example_lib roundtrip_line = Some roundtrip_fields"
    by (simp add: example_lib_def decodeFlat_roundtrip_line)
  have 2: "Unmarshal example_lib notrace_line = Some notrace_fields"
    by (simp add: example_lib_def decodeFlat_notrace_line)
  have 3: "distinct (map fst roundtrip_fields)"
    by (simp add: roundtrip_fields_def)
  have 4: "distinct (map fst notrace_fields)"
    by (simp add: notrace_fields_def)
  from roundtrip_example [of example_lib roundtrip_fields notrace_fields] 1 2 3 4
  show ?thesis by simp
qed

text \<open>
  C7, as the claim has it, fails on two kinds of line that \<^verbatim>\<open>json.Unmarshal\<close>
  rejects.  With no filter, the input \<^verbatim>\<open>not json\<close> followed by a carriage return and
  a newline is printed without the carriage return: \<^verbatim>\<open>bufio.ScanLines\<close> has dropped
  it before the loop sees the line.  A line of 65536 bytes is never given to the
  loop: the scanner stops with \<^verbatim>\<open>ErrTooLong\<close>, nothing is printed, neither that line
  nor the line after it, and the program returns after logging the error.
\<close>

theorem malformed_line_counterexample:
  "Unmarshal example_lib (''not json'' @ [CHR 0x0D]) = None
   \<and> Unmarshal example_lib ''not json'' = None
   \<and> logfmt_main example_lib [] (''not json'' @ [CHR 0x0D, CHR 0x0A])
       = ([''not json''], Returned None)
   \<and> ''not json'' \<noteq> ''not json'' @ [CHR 0x0D]
   \<and> Unmarshal example_lib long_text = None
   \<and> logfmt_main example_lib [] (long_text @ CHR 0x0A # ''not json'' @ [CHR 0x0A])
       = ([], Returned (Some ErrTooLong))"
proof -
  have 1: "Unmarshal example_lib (''not json'' @ [CHR 0x0D]) = None"
    by (simp add: example_lib_def decodeFlat_garbage isSpace_def)
  have 2: "Unmarshal example_lib ''not json'' = None"
    by (simp add: example_lib_def decodeFlat_not_json)
  have "scanLine example_lib (ToLower example_lib []) ''not json'' = Inr [''not json'']"
    by (simp add: scanLine_def 2)
  from main_one_line(3) [OF fits_examples(4) _ fits_examples(5) dropCR_examples(4) this]
  have 3: "logfmt_main example_lib [] (''not json'' @ [CHR 0x0D, CHR 0x0A])
      = ([''not json''], Returned None)"
    by simp
  have 4: "Unmarshal example_lib long_text = None"
    by (simp add: example_lib_def decodeFlat_long_text)
  have 5: "logfmt_main example_lib [] (long_text @ CHR 0x0A # ''not json'' @ [CHR 0x0A])
      = ([], Returned (Some ErrTooLong))"
    using long_text_too_long by (intro main_long) simp_all
  from 1 2 3 4 5 show ?thesis
    by simp
qed

text \<open>
  C7, as the code has it.  The loop sees the lines that \<^verbatim>\<open>bufio.Scanner\<close> delivers:
  a line of fewer than 65536 bytes before its newline, or before the end of the
  input, without the newline and without a carriage return before it.  After lines
  that were all delivered and did not end the program, such a line that
  \<^verbatim>\<open>json.Unmarshal\<close> rejects as delivered is printed as delivered when the lower-cased
  flag is empty, and prints nothing otherwise.  Either way the loop goes on: the lines
  before it are printed as without it, and what is printed after it and how the
  program ends are what the rest of the input gives; as the last line, without a
  newline, it ends the program without an error.  If instead 65536 or more bytes
  come before the next newline, nothing more is printed, whatever the flag and the
  text, and the program returns with the scanner's error \<^verbatim>\<open>ErrTooLong\<close>.  For a flag
  of ASCII characters the lower-cased flag is empty exactly when the flag is.
\<close>

theorem malformed_line:
  assumes "\<forall>p \<in> set pre. fits p"
    and "snd (logfmt_main l flag (unlines pre)) = Returned None"
  shows "(fits s \<and> Unmarshal l (dropCR s) = None \<longrightarrow>
            scanLine l (ToLower l flag) (dropCR s)
              = Inr (if ToLower l flag = [] then [dropCR s] else [])
          \<and> logfmt_main l flag (unlines pre @ s @ CHR 0x0A # rest)
              = (fst (logfmt_main l flag (unlines pre))
                   @ (if ToLower l flag = [] then [dropCR s] else [])
                   @ fst (logfmt_main l flag rest),
                 snd (logfmt_main l flag rest))
          \<and> (s \<noteq> [] \<longrightarrow>
               logfmt_main l flag (unlines pre @ s)
                 = (fst (logfmt_main l flag (unlines pre))
                      @ (if ToLower l flag = [] then [dropCR s] else []),
                    Returned None)))
       \<and> (CHR 0x0A \<notin> set t \<and> MaxScanTokenSize \<le> length t \<longrightarrow>
            logfmt_main l flag (unlines pre @ t @ rest)
              = (fst (logfmt_main l flag (unlines pre)), Returned (Some ErrTooLong)))
       \<and> (list_all (\<lambda>c. (of_char c :: nat) < 128) flag \<longrightarrow>
            (ToLower l flag = [] \<longleftrightarrow> flag = []))"
proof (intro conjI impI; (elim conjE)?)
  note after = main_after_lines [OF assms]
  {
    assume s: "fits s" "Unmarshal l (dropCR s) = None"
    then show line: "scanLine l (ToLower l flag) (dropCR s)
        = Inr (if ToLower l flag = [] then [dropCR s] else [])"
      by (simp add: scanLine_def)
    show "logfmt_main l flag (unlines pre @ s @ CHR 0x0A # rest)
        = (fst (logfmt_main l flag (unlines pre))
             @ (if ToLower l flag = [] then [dropCR s] else [])
             @ fst (logfmt_main l flag rest),
           snd (logfmt_main l flag rest))"
      by (simp add: after main_line [OF s(1)] line)
    assume "s \<noteq> []"
    then show "logfmt_main l flag (unlines pre @ s)
        = (fst (logfmt_main l flag (unlines pre))
             @ (if ToLower l flag = [] then [dropCR s] else []),
           Returned None)"
      by (simp add: after main_last [OF s(1)] line)
  }
  {
    assume "CHR 0x0A \<notin> set t" "MaxScanTokenSize \<le> length t"
    then show "logfmt_main l flag (unlines pre @ t @ rest)
        = (fst (logfmt_main l flag (unlines pre)), Returned (Some ErrTooLong))"
      by (simp add: after main_long)
  }
  {
    assume "list_all (\<lambda>c. (of_char c :: nat) < 128) flag"
    then show "ToLower l flag = [] \<longleftrightarrow> flag = []"
      by (rule ToLower_ascii_Nil_iff)
  }
qed

theorem malformed_line_witness:
  "fits roundtrip_line
   \<and> fits ''not json''
   \<and> Unmarshal example_lib (dropCR ''not json'') = None
   \<and> snd (logfmt_main example_lib [] (unlines [roundtrip_line])) = Returned None
   \<and> logfmt_main example_lib []
        (unlines [roundtrip_line] @ ''not json'' @ CHR 0x0A # notrace_line @ [CHR 0x0A])
       = ([''SALES: t1: f.go:10: INFO: abc: hello: extra[x]'',
           ''not json'',
           ''SALES: t1: f.go:10: INFO: 00000000-0000-0000-0000-000000000000: hello: extra[x]''],
          Returned None)
   \<and> logfmt_main example_lib [] (unlines [roundtrip_line] @ ''not json'')
       = ([''SALES: t1: f.go:10: INFO: abc: hello: extra[x]'', ''not json''], Returned None)
   \<and> snd (logfmt_main example_lib ''SALES'' (unlines [roundtrip_line])) = Returned None
   \<and> logfmt_main example_lib ''SALES''
        (unlines [roundtrip_line] @ ''not json'' @ CHR 0x0A # notrace_line @ [CHR 0x0A])
       = ([''SALES: t1: f.go:10: INFO: abc: hello: extra[x]'',
           ''SALES: t1: f.go:10: INFO: 00000000-0000-0000-0000-000000000000: hello: extra[x]''],
          Returned None)
   \<and> CHR 0x0A \<notin> set long_text \<and> MaxScanTokenSize \<le> length long_text
   \<and> logfmt_main example_lib ''SALES''
        (unlines [roundtrip_line] @ long_text @ notrace_line @ [CHR 0x0A])
       = ([''SALES: t1: f.go:10: INFO: abc: hello: extra[x]''], Returned (Some ErrTooLong))
   \<and> list_all (\<lambda>c. (of_char c :: nat) < 128) ''SALES''"
proof -
  have fit: "\<forall>p \<in> set [roundtrip_line]. fits p"
    by (simp add: fits_examples)
  have bad: "Unmarshal example_lib (dropCR ''not json'') = None"
    by (simp add: dropCR_examples example_lib_def decodeFlat_not_json)
  have u: "unlines [roundtrip_line] = roundtrip_line @ [CHR 0x0A]"
    by (simp add: unlines_def)
  have pre: "snd (logfmt_main example_lib flag (unlines [roundtrip_line])) = Returned None"
    for flag
    by (simp add: u main_roundtrip)
  have ascii: "list_all (\<lambda>c. (of_char c :: nat) < 128) ''SALES''"
    by simp
  note none = malformed_line [where l = example_lib and flag = "[]" and pre = "[roundtrip_line]"
      and s = "''not json''" and rest = "notrace_line @ [CHR 0x0A]" and t = long_text,
      OF fit pre]
  note some = malformed_line [where l = example_lib and flag = "''SALES''"
      and pre = "[roundtrip_line]" and s = "''not json''"
      and rest = "notrace_line @ [CHR 0x0A]" and t = long_text, OF fit pre]
  from none have 1: "logfmt_main example_lib []
        (unlines [roundtrip_line] @ ''not json'' @ CHR 0x0A # notrace_line @ [CHR 0x0A])
       = ([''SALES: t1: f.go:10: INFO: abc: hello: extra[x]'',
           ''not json'',
           ''SALES: t1: f.go:10: INFO: 00000000-0000-0000-0000-000000000000: hello: extra[x]''],
          Returned None)"
    and 2: "logfmt_main example_lib [] (unlines [roundtrip_line] @ ''not json'')
       = ([''SALES: t1: f.go:10: INFO: abc: hello: extra[x]'', ''not json''], Returned None)"
    using bad by (simp_all add: fits_examples dropCR_examples u main_roundtrip main_notrace)
  from some have 3: "logfmt_main example_lib ''SALES''
        (unlines [roundtrip_line] @ ''not json'' @ CHR 0x0A # notrace_line @ [CHR 0x0A])
       = ([''SALES: t1: f.go:10: INFO: abc: hello: extra[x]'',
           ''SALES: t1: f.go:10: INFO: 00000000-0000-0000-0000-000000000000: hello: extra[x]''],
          Returned None)"
    using bad
    by (simp add: fits_examples dropCR_examples u main_roundtrip main_notrace ToLower_sales)
  from some have 4: "logfmt_main example_lib ''SALES''
        (unlines [roundtrip_line] @ long_text @ notrace_line @ [CHR 0x0A])
       = ([''SALES: t1: f.go:10: INFO: abc: hello: extra[x]''], Returned (Some ErrTooLong))"
    using long_text_too_long by (simp add: u main_roundtrip ToLower_sales)
  from fit bad pre 1 2 3 4 ascii long_text_too_long show ?thesis
    by (simp add: fits_examples)
qed

text \<open>
  C9, as the claim has it, fails on a line that the scanner does not deliver.  With
  the filter \<^verbatim>\<open>SALES\<close>, a line that is a JSON object of one member \<^verbatim>\<open>msg\<close> with a
  value of 65536 characters, and so has no \<^verbatim>\<open>service\<close>, does not make the program
  panic: the scanner stops with \<^verbatim>\<open>ErrTooLong\<close> and the program returns.
\<close>

theorem missing_service_counterexample:
  "Unmarshal example_lib long_object = Some [(''msg'', JString (replicate 65536 (CHR ''x'')))]
   \<and> map_of [(''msg'', JString (replicate 65536 (CHR ''x'')))] ''service'' = None
   \<and> ToLower example_lib ''SALES'' = ''sales''
   \<and> logfmt_main example_lib ''SALES'' (long_object @ [CHR 0x0A])
       = ([], Returned (Some ErrTooLong))"
proof -
  have 1: "Unmarshal example_lib long_object
      = Some [(''msg'', JString (replicate 65536 (CHR ''x'')))]"
    by (simp add: example_lib_def decodeFlat_long_object)
  have 2: "logfmt_main example_lib ''SALES'' (long_object @ [CHR 0x0A])
      = ([], Returned (Some ErrTooLong))"
    using long_object_too_long by (intro main_long) simp_all
  from 1 2 show ?thesis
    by (simp add: ToLower_sales)
qed

text \<open>
  C9, as the code has it.  With a flag whose lower-cased form is not empty, after
  lines that were all delivered and did not end the program, a line that the scanner
  delivers (fewer than 65536 bytes before its newline or the end of the input) and
  that decodes, as delivered, to a map whose \<^verbatim>\<open>service\<close> entry is missing or is not a
  string makes the type assertion panic: the line prints nothing and the program
  ends there, with the lines before it printed and nothing after it read.  A line of
  65536 bytes or more is not delivered and does not panic, whatever it would decode
  to: the program returns with the scanner's error \<^verbatim>\<open>ErrTooLong\<close>.
\<close>

theorem missing_service_panics:
  assumes "\<forall>p \<in> set pre. fits p"
    and "snd (logfmt_main l flag (unlines pre)) = Returned None"
    and "ToLower l flag \<noteq> []"
  shows "(fits s \<and> Unmarshal l (dropCR s) = Some m
            \<and> (\<forall>x. map_of m ''service'' \<noteq> Some (JString x)) \<longrightarrow>
            scanLine l (ToLower l flag) (dropCR s) = Inl PanicInterfaceConversion
          \<and> logfmt_main l flag (unlines pre @ s @ CHR 0x0A # rest)
              = (fst (logfmt_main l flag (unlines pre)), Panicked PanicInterfaceConversion)
          \<and> (s \<noteq> [] \<longrightarrow>
               logfmt_main l flag (unlines pre @ s)
                 = (fst (logfmt_main l flag (unlines pre)), Panicked PanicInterfaceConversion)))
       \<and> (CHR 0x0A \<notin> set t \<and> MaxScanTokenSize \<le> length t \<longrightarrow>
            logfmt_main l flag (unlines pre @ t @ rest)
              = (fst (logfmt_main l flag (unlines pre)), Returned (Some ErrTooLong)))"
proof (intro conjI impI; (elim conjE)?)
  note after = main_after_lines [OF assms(1,2)]
  {
    assume s: "fits s" "Unmarshal l (dropCR s) = Some m"
      "\<forall>x. map_of m ''service'' \<noteq> Some (JString x)"
    then have "\<forall>x. index m ''service'' \<noteq> JString x"
      by (auto simp: index_def split: option.splits)
    then show line: "scanLine l (ToLower l flag) (dropCR s) = Inl PanicInterfaceConversion"
      using assms(3) s(2) by (cases "index m ''service''") (simp_all add: scanLine_def)
    show "logfmt_main l flag (unlines pre @ s @ CHR 0x0A # rest)
        = (fst (logfmt_main l flag (unlines pre)), Panicked PanicInterfaceConversion)"
      by (simp add: after main_line [OF s(1)] line)
    assume "s \<noteq> []"
    then show "logfmt_main l flag (unlines pre @ s)
        = (fst (logfmt_main l flag (unlines pre)), Panicked PanicInterfaceConversion)"
      by (simp add: after main_last [OF s(1)] line)
  }
  {
    assume "CHR 0x0A \<notin> set t" "MaxScanTokenSize \<le> length t"
    then show "logfmt_main l flag (unlines pre @ t @ rest)
        = (fst (logfmt_main l flag (unlines pre)), Returned (Some ErrTooLong))"
      by (simp add: after main_long)
  }
qed

theorem missing_service_panics_witness:
  "fits roundtrip_line
   \<and> snd (logfmt_main example_lib ''SALES'' (unlines [roundtrip_line])) = Returned None
   \<and> ToLower example_lib ''SALES'' \<noteq> []
   \<and> fits noservice_line
   \<and> Unmarshal example_lib (dropCR noservice_line) = Some [(''msg'', JString ''hello'')]
   \<and> (\<forall>x. map_of [(''msg'', JString ''hello'')] ''service'' \<noteq> Some (JString x))
   \<and> logfmt_main example_lib ''SALES''
        (unlines [roundtrip_line] @ noservice_line @ CHR 0x0A # notrace_line @ [CHR 0x0A])
       = ([''SALES: t1: f.go:10: INFO: abc: hello: extra[x]''],
          Panicked PanicInterfaceConversion)
   \<and> logfmt_main example_lib ''SALES'' (unlines [roundtrip_line] @ noservice_line)
       = ([''SALES: t1: f.go:10: INFO: abc: hello: extra[x]''],
          Panicked PanicInterfaceConversion)
   \<and> CHR 0x0A \<notin> set long_object \<and> MaxScanTokenSize \<le> length long_object
   \<and> logfmt_main example_lib ''SALES''
        (unlines [roundtrip_line] @ long_object @ notrace_line @ [CHR 0x0A])
       = ([''SALES: t1: f.go:10: INFO: abc: hello: extra[x]''], Returned (Some ErrTooLong))"
proof -
  have fit: "\<forall>p \<in> set [roundtrip_line]. fits p"
    by (simp add: fits_examples)
  have u: "unlines [roundtrip_line] = roundtrip_line @ [CHR 0x0A]"
    by (simp add: unlines_def)
  have pre: "snd (logfmt_main example_lib ''SALES'' (unlines [roundtrip_line])) = Returned None"
    by (simp add: u main_roundtrip)
  have flag: "ToLower example_lib ''SALES'' \<noteq> []"
    by (simp add: ToLower_sales)
  have dec: "Unmarshal example_lib (dropCR noservice_line) = Some [(''msg'', JString ''hello'')]"
    by (simp add: dropCR_examples example_lib_def decodeFlat_noservice_line)
  have none: "\<forall>x. map_of [(''msg'', JString ''hello'')] ''service'' \<noteq> Some (JString x)"
    by simp
  note inst = missing_service_panics [where l = example_lib and flag = "''SALES''"
      and pre = "[roundtrip_line]" and s = noservice_line
      and m = "[(''msg'', JString ''hello'')]" and rest = "notrace_line @ [CHR 0x0A]"
      and t = long_object, OF fit pre flag]
  from inst dec have 1: "logfmt_main example_lib ''SALES''
        (unlines [roundtrip_line] @ noservice_line @ CHR 0x0A # notrace_line @ [CHR 0x0A])
       = ([''SALES: t1: f.go:10: INFO: abc: hello: extra[x]''],
          Panicked PanicInterfaceConversion)"
    and 2: "logfmt_main example_lib ''SALES'' (unlines [roundtrip_line] @ noservice_line)
       = ([''SALES: t1: f.go:10: INFO: abc: hello: extra[x]''],
          Panicked PanicInterfaceConversion)"
    by (simp_all add: fits_examples nonempty_examples u main_roundtrip ToLower_sales)
  from inst have 3: "logfmt_main example_lib ''SALES''
        (unlines [roundtrip_line] @ long_object @ notrace_line @ [CHR 0x0A])
       = ([''SALES: t1: f.go:10: INFO: abc: hello: extra[x]''], Returned (Some ErrTooLong))"
    using long_object_too_long by (simp add: u main_roundtrip ToLower_sales)
  from fit pre flag dec none 1 2 3 long_object_too_long show ?thesis
    by (simp add: fits_examples)
qed

end
